theory Spec2Isabelle
  imports Main "HOL-Library.Word"
begin

unbundle bit_operations_syntax

section \<open>Data model\<close>

text \<open>
  The checkpoint/restore system calls of \<^verbatim>\<open>sysfile.c\<close> (\<^verbatim>\<open>the_opener\<close>,
  \<^verbatim>\<open>sys_isvpcb\<close>, \<^verbatim>\<open>sys_ildpcb\<close>) together with \<^verbatim>\<open>fdalloc\<close>, \<^verbatim>\<open>create\<close> and
  \<^verbatim>\<open>sys_open\<close>, which they use or mirror.

  Pointers (\<^verbatim>\<open>struct file *\<close>, \<^verbatim>\<open>struct inode *\<close>, kernel virtual addresses) are
  32-bit words, 0 being the null pointer. \<^verbatim>\<open>uint\<close> is a 32-bit word, \<^verbatim>\<open>short\<close> a
  16-bit word, \<^verbatim>\<open>int\<close> values (descriptors, modes, byte counts, pids) are integers:
  none of the code modelled here does arithmetic on them.
\<close>

type_synonym byte = "8 word"
type_synonym addr = "32 word"
type_synonym uint = "32 word"
type_synonym short = "16 word"

text \<open>The fields of \<^verbatim>\<open>struct file\<close> that \<^verbatim>\<open>sysfile.c\<close> assigns.\<close>

record file_rec =
  f_type :: int
  f_ip :: addr
  f_off :: uint
  f_readable :: bool
  f_writable :: bool

text \<open>The fields of \<^verbatim>\<open>struct inode\<close> that \<^verbatim>\<open>create\<close> reads or assigns.\<close>

record inode_rec =
  i_dev :: uint
  i_inum :: uint
  i_type :: short
  i_major :: short
  i_minor :: short
  i_nlink :: short

text \<open>
  The kernel outside the calling process: the file table, the inode cache, the console,
  and everything else (disk, log, locks, reference counts, the process table) as an
  uninterpreted component \<open>ext\<close>. A console entry is a format string with the integer
  arguments its conversions read (an argument past them is never read).
\<close>

record 'x kern =
  files :: "addr \<Rightarrow> file_rec"
  inodes :: "addr \<Rightarrow> inode_rec"
  console :: "(string \<times> int list) list"
  ext :: 'x

text \<open>
  The state a system call runs on: the fields of the calling process (\<^verbatim>\<open>proc\<close>) that
  the code reads or assigns, kernel memory as bytes with the addresses that are mapped,
  and the rest of the kernel.
  \<^verbatim>\<open>proc->ofile\<close> is an array of \<^verbatim>\<open>NOFILE\<close> file pointers: a function of the index,
  meaningful below \<^verbatim>\<open>NOFILE\<close>. \<^verbatim>\<open>proc->pgdir\<close> is the address of the page directory.
\<close>

record 'x kstate =
  ofile :: "nat \<Rightarrow> addr"
  p_sz :: uint
  p_pid :: int
  p_pgdir :: addr
  p_tf :: addr
  p_context :: addr
  mem :: "addr \<Rightarrow> byte"
  mapped :: "addr \<Rightarrow> bool"
  kern :: "'x kern"

text \<open>
  How a call that does not return to its caller ends: \<^verbatim>\<open>exit()\<close> ends the calling
  process, \<^verbatim>\<open>panic\<close> halts the kernel with a message, an array access outside its
  bounds has no defined behaviour in C, and a store through a pointer to memory that is
  not mapped faults in the kernel, at that pointer.
\<close>

datatype 's stop = Exit 's | Panic string 's | Undefined string | Fault addr

type_synonym ('a, 's) res = "'s stop + 'a \<times> 's"

section \<open>Constants of the headers\<close>

text \<open>
  Modelled from the spec: the headers \<^verbatim>\<open>param.h\<close>, \<^verbatim>\<open>fcntl.h\<close>, \<^verbatim>\<open>stat.h\<close>,
  \<^verbatim>\<open>file.h\<close>, \<^verbatim>\<open>mmu.h\<close> and \<^verbatim>\<open>memlayout.h\<close> are not among the sources. The
  page size is the 4096 of the spec's scenarios; the open modes are its read-only,
  write-only, read-write and create access modes; the other constants have the values of
  the stock xv6 headers this kernel is built on.
\<close>

definition NOFILE :: nat where "NOFILE = 16"

definition O_RDONLY :: int where "O_RDONLY = 0"
definition O_WRONLY :: int where "O_WRONLY = 1"
definition O_RDWR :: int where "O_RDWR = 2"
definition O_CREATE :: int where "O_CREATE = 512"

definition T_DIR :: short where "T_DIR = 1"
definition T_FILE :: short where "T_FILE = 2"

definition FD_INODE :: int where "FD_INODE = 2"

definition PGSIZE :: uint where "PGSIZE = 4096"
definition PTE_P :: uint where "PTE_P = 1"

definition PTE_ADDR :: "uint \<Rightarrow> uint" where
  "PTE_ADDR pte = pte AND NOT 4095"

definition PTE_FLAGS :: "uint \<Rightarrow> uint" where
  "PTE_FLAGS pte = pte AND 4095"

definition p2v :: "uint \<Rightarrow> addr" where
  "p2v a = a + 2147483648"

section \<open>The kernel primitives the code calls\<close>

text \<open>
  The functions of \<^verbatim>\<open>fs.c\<close>, \<^verbatim>\<open>file.c\<close>, \<^verbatim>\<open>log.c\<close>, \<^verbatim>\<open>syscall.c\<close>,
  \<^verbatim>\<open>vm.c\<close> and \<^verbatim>\<open>proc.c\<close> that \<^verbatim>\<open>sysfile.c\<close> calls are not among the sources. They are
  parameters: every theorem below holds whatever they do. Their types say what they can
  reach: the file-system primitives work on the kernel outside the process and touch
  neither \<^verbatim>\<open>proc->ofile\<close> nor the memory the caller hands them to read;
  \<^verbatim>\<open>load_the_proc\<close> gets the address of the loaded record and works on the whole
  state; \<^verbatim>\<open>ns_walkpgdir\<close>, called without
  allocation, reads memory from the page directory it is given and gives the page-table
  entry its result points to, or nothing for a null pointer. \<^verbatim>\<open>filewrite\<close> gets the bytes found at
  its source pointer; \<^verbatim>\<open>fileread\<close> returns its count and the bytes it stored at the
  start of the destination buffer. The layout of \<^verbatim>\<open>struct context\<close>,
  \<^verbatim>\<open>struct trapframe\<close> and \<^verbatim>\<open>struct proc\<close> (\<^verbatim>\<open>proc.h\<close>, \<^verbatim>\<open>x86.h\<close>) is a
  parameter too: the three sizes, the bytes of the caller's \<^verbatim>\<open>struct proc\<close>, and the
  value of the \<^verbatim>\<open>context\<close> and \<^verbatim>\<open>tf\<close> pointer fields inside such bytes.
\<close>

record 'x env =
  e_begin_op :: "'x kern \<Rightarrow> 'x kern"
  e_end_op :: "'x kern \<Rightarrow> 'x kern"
  e_namei :: "string \<Rightarrow> 'x kern \<Rightarrow> addr \<times> 'x kern"
  e_nameiparent :: "string \<Rightarrow> 'x kern \<Rightarrow> (addr \<times> string) \<times> 'x kern"
  e_ilock :: "addr \<Rightarrow> 'x kern \<Rightarrow> 'x kern"
  e_iunlock :: "addr \<Rightarrow> 'x kern \<Rightarrow> 'x kern"
  e_iunlockput :: "addr \<Rightarrow> 'x kern \<Rightarrow> 'x kern"
  e_iupdate :: "addr \<Rightarrow> 'x kern \<Rightarrow> 'x kern"
  e_dirlookup :: "addr \<Rightarrow> string \<Rightarrow> 'x kern \<Rightarrow> addr \<times> 'x kern"
  e_ialloc :: "uint \<Rightarrow> short \<Rightarrow> 'x kern \<Rightarrow> addr \<times> 'x kern"
  e_dirlink :: "addr \<Rightarrow> string \<Rightarrow> uint \<Rightarrow> 'x kern \<Rightarrow> int \<times> 'x kern"
  e_filealloc :: "'x kern \<Rightarrow> addr \<times> 'x kern"
  e_fileclose :: "addr \<Rightarrow> 'x kern \<Rightarrow> 'x kern"
  e_filewrite :: "addr \<Rightarrow> byte list \<Rightarrow> int \<Rightarrow> 'x kern \<Rightarrow> int \<times> 'x kern"
  e_fileread :: "addr \<Rightarrow> int \<Rightarrow> 'x kern \<Rightarrow> (int \<times> byte list) \<times> 'x kern"
  e_kill :: "int \<Rightarrow> 'x kern \<Rightarrow> 'x kern"
  e_ns_walkpgdir :: "(addr \<Rightarrow> byte) \<Rightarrow> addr \<Rightarrow> uint \<Rightarrow> uint option"
  e_argstr :: "nat \<Rightarrow> 'x kstate \<Rightarrow> int \<times> string"
  e_argint :: "nat \<Rightarrow> 'x kstate \<Rightarrow> int \<times> int"
  e_load_the_proc :: "addr \<Rightarrow> addr \<Rightarrow> addr \<Rightarrow> 'x kstate \<Rightarrow> int \<times> 'x kstate"
  sizeof_context :: nat
  sizeof_trapframe :: nat
  sizeof_proc :: nat
  proc_image :: "'x kstate \<Rightarrow> byte list"
  lp_context :: "byte list \<Rightarrow> addr"
  lp_tf :: "byte list \<Rightarrow> addr"

text \<open>The primitives, lifted to the state of the call.\<close>

definition on_kern :: "('x kern \<Rightarrow> 'x kern) \<Rightarrow> 'x kstate \<Rightarrow> 'x kstate" where
  "on_kern g s = s\<lparr>kern := g (kern s)\<rparr>"

definition in_kern :: "('x kern \<Rightarrow> 'a \<times> 'x kern) \<Rightarrow> 'x kstate \<Rightarrow> 'a \<times> 'x kstate" where
  "in_kern g s = (case g (kern s) of (r, k) \<Rightarrow> (r, s\<lparr>kern := k\<rparr>))"

definition begin_op :: "'x env \<Rightarrow> 'x kstate \<Rightarrow> 'x kstate" where
  "begin_op env = on_kern (e_begin_op env)"

definition end_op :: "'x env \<Rightarrow> 'x kstate \<Rightarrow> 'x kstate" where
  "end_op env = on_kern (e_end_op env)"

definition namei :: "'x env \<Rightarrow> string \<Rightarrow> 'x kstate \<Rightarrow> addr \<times> 'x kstate" where
  "namei env path = in_kern (e_namei env path)"

definition nameiparent :: "'x env \<Rightarrow> string \<Rightarrow> 'x kstate \<Rightarrow> (addr \<times> string) \<times> 'x kstate" where
  "nameiparent env path = in_kern (e_nameiparent env path)"

definition ilock :: "'x env \<Rightarrow> addr \<Rightarrow> 'x kstate \<Rightarrow> 'x kstate" where
  "ilock env ip = on_kern (e_ilock env ip)"

definition iunlock :: "'x env \<Rightarrow> addr \<Rightarrow> 'x kstate \<Rightarrow> 'x kstate" where
  "iunlock env ip = on_kern (e_iunlock env ip)"

definition iunlockput :: "'x env \<Rightarrow> addr \<Rightarrow> 'x kstate \<Rightarrow> 'x kstate" where
  "iunlockput env ip = on_kern (e_iunlockput env ip)"

definition iupdate :: "'x env \<Rightarrow> addr \<Rightarrow> 'x kstate \<Rightarrow> 'x kstate" where
  "iupdate env ip = on_kern (e_iupdate env ip)"

definition dirlookup :: "'x env \<Rightarrow> addr \<Rightarrow> string \<Rightarrow> 'x kstate \<Rightarrow> addr \<times> 'x kstate" where
  "dirlookup env dp name = in_kern (e_dirlookup env dp name)"

definition ialloc :: "'x env \<Rightarrow> uint \<Rightarrow> short \<Rightarrow> 'x kstate \<Rightarrow> addr \<times> 'x kstate" where
  "ialloc env dev type = in_kern (e_ialloc env dev type)"

definition dirlink :: "'x env \<Rightarrow> addr \<Rightarrow> string \<Rightarrow> uint \<Rightarrow> 'x kstate \<Rightarrow> int \<times> 'x kstate" where
  "dirlink env dp name inum = in_kern (e_dirlink env dp name inum)"

definition filealloc :: "'x env \<Rightarrow> 'x kstate \<Rightarrow> addr \<times> 'x kstate" where
  "filealloc env = in_kern (e_filealloc env)"

definition fileclose :: "'x env \<Rightarrow> addr \<Rightarrow> 'x kstate \<Rightarrow> 'x kstate" where
  "fileclose env f = on_kern (e_fileclose env f)"

definition filewrite :: "'x env \<Rightarrow> addr \<Rightarrow> byte list \<Rightarrow> int \<Rightarrow> 'x kstate \<Rightarrow> int \<times> 'x kstate" where
  "filewrite env f src n = in_kern (e_filewrite env f src n)"

definition fileread :: "'x env \<Rightarrow> addr \<Rightarrow> int \<Rightarrow> 'x kstate \<Rightarrow> (int \<times> byte list) \<times> 'x kstate" where
  "fileread env f n = in_kern (e_fileread env f n)"

definition kill :: "'x env \<Rightarrow> int \<Rightarrow> 'x kstate \<Rightarrow> 'x kstate" where
  "kill env pid = on_kern (e_kill env pid)"

text \<open>
  Modelled from the spec: \<^verbatim>\<open>cprintf\<close> (\<^verbatim>\<open>console.c\<close>) is not among the sources.
  Diagnostics go through "the kernel's console channel": a message is appended to the
  console, as its format string and its integer arguments.
\<close>

definition cprintf :: "string \<Rightarrow> int list \<Rightarrow> 'x kstate \<Rightarrow> 'x kstate" where
  "cprintf fmt args = on_kern (\<lambda>k. k\<lparr>console := console k @ [(fmt, args)]\<rparr>)"

text \<open>Reading and writing a run of bytes of kernel memory.\<close>

definition load :: "(addr \<Rightarrow> byte) \<Rightarrow> addr \<Rightarrow> nat \<Rightarrow> byte list" where
  "load m a n = map (\<lambda>j. m (a + of_nat j)) [0..<n]"

fun store :: "(addr \<Rightarrow> byte) \<Rightarrow> addr \<Rightarrow> byte list \<Rightarrow> addr \<Rightarrow> byte" where
  "store m a [] = m"
| "store m a (b # bs) = store (m(a := b)) (a + 1) bs"

text \<open>The four bytes of a \<^verbatim>\<open>uint\<close> in memory, least significant first (x86).\<close>

definition uint_bytes :: "uint \<Rightarrow> byte list" where
  "uint_bytes w = [ucast w, ucast (drop_bit 8 w), ucast (drop_bit 16 w), ucast (drop_bit 24 w)]"

section \<open>Opening a file\<close>

text \<open>
  \<^verbatim>\<open>fdalloc\<close>: the first free slot of \<^verbatim>\<open>proc->ofile\<close> takes the file; -1 when all
  \<^verbatim>\<open>NOFILE\<close> slots are taken. \<open>fdalloc_from\<close> is the loop from \<open>fd\<close> on.
\<close>

function fdalloc_from :: "nat \<Rightarrow> addr \<Rightarrow> 'x kstate \<Rightarrow> int \<times> 'x kstate" where
  "fdalloc_from fd f s =
     (if fd < NOFILE then
        (if ofile s fd = 0 then (int fd, s\<lparr>ofile := (ofile s)(fd := f)\<rparr>)
         else fdalloc_from (Suc fd) f s)
      else (-1, s))"
  by pat_completeness auto
termination
  by (relation "measure (\<lambda>(fd, f, s). NOFILE - fd)") auto

definition fdalloc :: "addr \<Rightarrow> 'x kstate \<Rightarrow> int \<times> 'x kstate" where
  "fdalloc f s = fdalloc_from 0 f s"

text \<open>
  \<^verbatim>\<open>create\<close>: look the last path element up in its parent directory; an existing
  regular file is returned locked when a regular file was asked for; otherwise a new
  inode is allocated and linked. A null result is 0.
\<close>

definition create :: "'x env \<Rightarrow> string \<Rightarrow> short \<Rightarrow> short \<Rightarrow> short \<Rightarrow> 'x kstate \<Rightarrow> (addr, 'x kstate) res" where
  "create env path type major minor s =
     (case nameiparent env path s of ((dp, name), s1) \<Rightarrow>
      if dp = 0 then Inr (0, s1)
      else
        let s2 = ilock env dp s1 in
        case dirlookup env dp name s2 of (ip, s3) \<Rightarrow>
        if ip \<noteq> 0 then
          (let s4 = iunlockput env dp s3;
               s5 = ilock env ip s4
           in if type = T_FILE \<and> i_type (inodes (kern s5) ip) = T_FILE then Inr (ip, s5)
              else Inr (0, iunlockput env ip s5))
        else
          (case ialloc env (i_dev (inodes (kern s3) dp)) type s3 of (ip, s4) \<Rightarrow>
           if ip = 0 then Inl (Panic ''create: ialloc'' s4)
           else
             let s5 = ilock env ip s4;
                 s6 = on_kern (\<lambda>k. k\<lparr>inodes := (inodes k)
                        (ip := (inodes k ip)\<lparr>i_major := major, i_minor := minor, i_nlink := 1\<rparr>)\<rparr>) s5;
                 s7 = iupdate env ip s6
             in
             case (if type = T_DIR then
                     (let s8 = on_kern (\<lambda>k. k\<lparr>inodes := (inodes k)
                                 (dp := (inodes k dp)\<lparr>i_nlink := i_nlink (inodes k dp) + 1\<rparr>)\<rparr>) s7;
                          s9 = iupdate env dp s8
                      in case dirlink env ip ''.'' (i_inum (inodes (kern s9) ip)) s9 of (r1, s10) \<Rightarrow>
                         if r1 < 0 then Inl (Panic ''create dots'' s10)
                         else case dirlink env ip ''..'' (i_inum (inodes (kern s10) dp)) s10 of (r2, s11) \<Rightarrow>
                              if r2 < 0 then Inl (Panic ''create dots'' s11) else Inr s11)
                   else Inr s7) of
               Inl e \<Rightarrow> Inl e
             | Inr s12 \<Rightarrow>
                 (case dirlink env dp name (i_inum (inodes (kern s12) ip)) s12 of (r3, s13) \<Rightarrow>
                  if r3 < 0 then Inl (Panic ''create: dirlink'' s13)
                  else Inr (ip, iunlockput env dp s13))))"

text \<open>
  \<^verbatim>\<open>sys_open\<close>: fetch the path and the mode from the system call's arguments, then
  open. \<open>sys_open_rest\<close> is the code of \<^verbatim>\<open>sys_open\<close> after its
  \<^verbatim>\<open>if (omode & O_CREATE)\<close> statement (from \<^verbatim>\<open>filealloc\<close> on), reached with the
  inode \<open>ip\<close> locked.
\<close>

definition sys_open_rest :: "'x env \<Rightarrow> int \<Rightarrow> addr \<Rightarrow> 'x kstate \<Rightarrow> (int, 'x kstate) res" where
  "sys_open_rest env omode ip s =
     (case filealloc env s of (f, s1) \<Rightarrow>
      case (if f = 0 then (-1, s1) else fdalloc f s1) of (fd, s2) \<Rightarrow>
      if f = 0 \<or> fd < 0 then
        Inr (-1, end_op env (iunlockput env ip (if f \<noteq> 0 then fileclose env f s2 else s2)))
      else
        Inr (fd, on_kern (\<lambda>k. k\<lparr>files := (files k)
                (f := (files k f)\<lparr>f_type := FD_INODE, f_ip := ip, f_off := 0,
                       f_readable := (omode AND O_WRONLY = 0),
                       f_writable := (omode AND O_WRONLY \<noteq> 0 \<or> omode AND O_RDWR \<noteq> 0)\<rparr>)\<rparr>)
                (end_op env (iunlock env ip s2))))"

definition sys_open :: "'x env \<Rightarrow> 'x kstate \<Rightarrow> (int, 'x kstate) res" where
  "sys_open env s =
     (if fst (e_argstr env 0 s) < 0 \<or> fst (e_argint env 1 s) < 0 then Inr (-1, s)
      else
        let path = snd (e_argstr env 0 s);
            omode = snd (e_argint env 1 s);
            s1 = begin_op env s
        in
        if omode AND O_CREATE \<noteq> 0 then
          (case create env path T_FILE 0 0 s1 of
             Inl e \<Rightarrow> Inl e
           | Inr (ip, s2) \<Rightarrow> if ip = 0 then Inr (-1, end_op env s2) else sys_open_rest env omode ip s2)
        else
          (case namei env path s1 of (ip, s2) \<Rightarrow>
           if ip = 0 then Inr (-1, end_op env s2)
           else
             let s3 = ilock env ip s2 in
             if i_type (inodes (kern s3) ip) = T_DIR \<and> omode \<noteq> O_RDONLY
             then Inr (-1, end_op env (iunlockput env ip s3))
             else sys_open_rest env omode ip s3))"

text \<open>
  \<^verbatim>\<open>the_opener\<close>: written out again in the source, on a path and a mode given by the
  kernel caller. \<open>the_opener_rest\<close> is its code from \<^verbatim>\<open>filealloc\<close> on.
\<close>

definition the_opener_rest :: "'x env \<Rightarrow> int \<Rightarrow> addr \<Rightarrow> 'x kstate \<Rightarrow> (int, 'x kstate) res" where
  "the_opener_rest env omode ip s =
     (case filealloc env s of (f, s1) \<Rightarrow>
      case (if f = 0 then (-1, s1) else fdalloc f s1) of (fd, s2) \<Rightarrow>
      if f = 0 \<or> fd < 0 then
        Inr (-1, end_op env (iunlockput env ip (if f \<noteq> 0 then fileclose env f s2 else s2)))
      else
        Inr (fd, on_kern (\<lambda>k. k\<lparr>files := (files k)
                (f := (files k f)\<lparr>f_type := FD_INODE, f_ip := ip, f_off := 0,
                       f_readable := (omode AND O_WRONLY = 0),
                       f_writable := (omode AND O_WRONLY \<noteq> 0 \<or> omode AND O_RDWR \<noteq> 0)\<rparr>)\<rparr>)
                (end_op env (iunlock env ip s2))))"

definition the_opener :: "'x env \<Rightarrow> string \<Rightarrow> int \<Rightarrow> 'x kstate \<Rightarrow> (int, 'x kstate) res" where
  "the_opener env p om s =
     (let path = p;
          omode = om;
          s1 = begin_op env s
      in
      if omode AND O_CREATE \<noteq> 0 then
        (case create env path T_FILE 0 0 s1 of
           Inl e \<Rightarrow> Inl e
         | Inr (ip, s2) \<Rightarrow> if ip = 0 then Inr (-1, end_op env s2) else the_opener_rest env omode ip s2)
      else
        (case namei env path s1 of (ip, s2) \<Rightarrow>
         if ip = 0 then Inr (-1, end_op env s2)
         else
           let s3 = ilock env ip s2 in
           if i_type (inodes (kern s3) ip) = T_DIR \<and> omode \<noteq> O_RDONLY
           then Inr (-1, end_op env (iunlockput env ip s3))
           else the_opener_rest env omode ip s3))"

section \<open>Checkpoint\<close>

text \<open>
  Sequencing of calls that may stop: a stop of the first ends the whole.
\<close>

definition then_res :: "('a, 's) res \<Rightarrow> ('a \<Rightarrow> 's \<Rightarrow> ('b, 's) res) \<Rightarrow> ('b, 's) res" where
  "then_res r g = (case r of Inl e \<Rightarrow> Inl e | Inr (a, s) \<Rightarrow> g a s)"

text \<open>
  \<^verbatim>\<open>proc->ofile[fd]\<close> for an \<^verbatim>\<open>int fd\<close>: defined for an index of the array only.
\<close>

definition ofile_at :: "'x kstate \<Rightarrow> int \<Rightarrow> addr option" where
  "ofile_at s fd = (if 0 \<le> fd \<and> fd < int NOFILE then Some (ofile s (nat fd)) else None)"

definition ofile_clear :: "int \<Rightarrow> 'x kstate \<Rightarrow> 'x kstate" where
  "ofile_clear fd s = s\<lparr>ofile := (ofile s)(nat fd := 0)\<rparr>"

text \<open>\<^verbatim>\<open>ns_walkpgdir(proc->pgdir, va, 0)\<close> in a state.\<close>

definition ns_walkpgdir :: "'x env \<Rightarrow> 'x kstate \<Rightarrow> uint \<Rightarrow> uint option" where
  "ns_walkpgdir env s va = e_ns_walkpgdir env (mem s) (p_pgdir s) va"

text \<open>
  The page loop of \<^verbatim>\<open>sys_isvpcb\<close>, from \<^verbatim>\<open>i\<close> on:
  \<^verbatim>\<open>for (i = 0; i < proc->sz; i += PGSIZE)\<close> with \<^verbatim>\<open>uint i\<close>. The counter wraps
  around at \<open>2 ^ 32\<close>, so the loop need not end: no result is \<open>None\<close>.
\<close>

partial_function (option) page_sweep ::
  "'x env \<Rightarrow> addr \<Rightarrow> addr \<Rightarrow> uint \<Rightarrow> 'x kstate \<Rightarrow> ('x kstate stop + 'x kstate) option" where
  "page_sweep env f f2 i s =
     (if i < p_sz s then
        (case ns_walkpgdir env s i of
           None \<Rightarrow> Some (Inl (Panic ''copyuvm: pte should exist.'' s))
         | Some pte \<Rightarrow>
             if pte AND PTE_P = 0 then Some (Inl (Panic ''copyuvm: page not present.'' s))
             else
               let pa = PTE_ADDR pte;
                   flag = PTE_FLAGS pte
               in
               case filewrite env f (load (mem s) (p2v pa) (unat PGSIZE)) (uint PGSIZE) s of (file_size, s1) \<Rightarrow>
               case filewrite env f2 (uint_bytes flag) 4 s1 of (r2, s2) \<Rightarrow>
               if file_size \<noteq> uint PGSIZE
               then Some (Inl (Exit (cprintf ''Error:Failed to write UVM file.\<newline>'' [] s2)))
               else page_sweep env f f2 (i + PGSIZE)
                      (cprintf ''Written UVM Page %d.\<newline>'' [uint (i div PGSIZE)] s2))
      else Some (Inr s))"

text \<open>
  The first part of \<^verbatim>\<open>sys_isvpcb\<close> ("Saving UVM"): create the pages and the flag
  artifacts, sweep the pages, release the two handles.
\<close>

definition save_uvm :: "'x env \<Rightarrow> 'x kstate \<Rightarrow> ('x kstate stop + 'x kstate) option" where
  "save_uvm env s =
     (case the_opener env ''pages'' (O_CREATE OR O_RDWR) s of
        Inl e \<Rightarrow> Some (Inl e)
      | Inr (fd, s1) \<Rightarrow>
     (case the_opener env ''flag'' (O_CREATE OR O_RDWR) s1 of
        Inl e \<Rightarrow> Some (Inl e)
      | Inr (fd2, s2) \<Rightarrow>
          if fd < 0 then Some (Inl (Exit (cprintf ''Error:Failed to create UVM file.\<newline>'' [] s2)))
          else
            let s3 = cprintf ''Created UVM file.\<newline>'' [] s2 in
            case ofile_at s3 fd of
              None \<Rightarrow> Some (Inl (Undefined ''proc->ofile[fd]''))
            | Some f \<Rightarrow>
            (case ofile_at s3 fd2 of
              None \<Rightarrow> Some (Inl (Undefined ''proc->ofile[fd2]''))
            | Some f2 \<Rightarrow>
            (case page_sweep env f f2 0 s3 of
               None \<Rightarrow> None
             | Some (Inl e) \<Rightarrow> Some (Inl e)
             | Some (Inr s4) \<Rightarrow>
                 Some (Inr (fileclose env f2 (fileclose env f (ofile_clear fd2 (ofile_clear fd s4)))))))))"

text \<open>
  The three parts that follow ("Saving context", "Saving trapframe", "Saving proc") each
  create one artifact, write one record to it and release the handle.
\<close>

definition save_context :: "'x env \<Rightarrow> 'x kstate \<Rightarrow> 'x kstate stop + 'x kstate" where
  "save_context env s =
     (case the_opener env ''context'' (O_CREATE OR O_RDWR) s of
        Inl e \<Rightarrow> Inl e
      | Inr (fd, s1) \<Rightarrow>
          if fd < 0 then Inl (Exit (cprintf ''Error:Failed to create context file.\<newline>'' [] s1))
          else
            let s2 = cprintf ''Created context file.\<newline>'' [] s1 in
            case ofile_at s2 fd of
              None \<Rightarrow> Inl (Undefined ''proc->ofile[fd]'')
            | Some f \<Rightarrow>
            (case filewrite env f (load (mem s2) (p_context s2) (sizeof_context env))
                    (int (sizeof_context env)) s2 of (file_size, s3) \<Rightarrow>
             if file_size \<noteq> int (sizeof_context env)
             then Inl (Exit (cprintf ''Error:Failed to write context file.\<newline>'' [] s3))
             else
               Inr (fileclose env f (ofile_clear fd
                 (cprintf ''Written context file.\<newline>'' [] s3)))))"

definition save_trapframe :: "'x env \<Rightarrow> 'x kstate \<Rightarrow> 'x kstate stop + 'x kstate" where
  "save_trapframe env s =
     (case the_opener env ''trapframe'' (O_CREATE OR O_RDWR) s of
        Inl e \<Rightarrow> Inl e
      | Inr (fd, s1) \<Rightarrow>
          if fd < 0 then Inl (Exit (cprintf ''Error:Failed to create trapframe file.\<newline>'' [] s1))
          else
            let s2 = cprintf ''Created trapframe file.\<newline>'' [] s1 in
            case ofile_at s2 fd of
              None \<Rightarrow> Inl (Undefined ''proc->ofile[fd]'')
            | Some f \<Rightarrow>
            (case filewrite env f (load (mem s2) (p_tf s2) (sizeof_trapframe env))
                    (int (sizeof_trapframe env)) s2 of (file_size, s3) \<Rightarrow>
             if file_size \<noteq> int (sizeof_trapframe env)
             then Inl (Exit (cprintf ''Error:Failed to write trapframe file.\<newline>'' [] s3))
             else
               Inr (fileclose env f (ofile_clear fd
                 (cprintf ''Written trapframe file.\<newline>'' [] s3)))))"

definition save_proc :: "'x env \<Rightarrow> 'x kstate \<Rightarrow> 'x kstate stop + 'x kstate" where
  "save_proc env s =
     (case the_opener env ''proc'' (O_CREATE OR O_RDWR) s of
        Inl e \<Rightarrow> Inl e
      | Inr (fd, s1) \<Rightarrow>
          if fd < 0 then Inl (Exit (cprintf ''Error:Failed to create proc file.\<newline>'' [] s1))
          else
            let s2 = cprintf ''Created proc file.\<newline>'' [] s1 in
            case ofile_at s2 fd of
              None \<Rightarrow> Inl (Undefined ''proc->ofile[fd]'')
            | Some f \<Rightarrow>
            (case filewrite env f (proc_image env s2) (int (sizeof_proc env)) s2 of (file_size, s3) \<Rightarrow>
             if file_size \<noteq> int (sizeof_proc env)
             then Inl (Exit (cprintf ''Error:Failed to write proc file.\<newline>'' [] s3))
             else
               Inr (fileclose env f (ofile_clear fd
                 (cprintf ''Written proc file.\<newline>'' [] s3)))))"

text \<open>
  \<^verbatim>\<open>sys_isvpcb\<close>, the checkpoint system call: the four parts in order, then
  \<^verbatim>\<open>kill(proc->pid); exit();\<close>. The \<^verbatim>\<open>return 0\<close> after \<^verbatim>\<open>exit()\<close> is never
  reached: \<^verbatim>\<open>exit\<close> ends the calling process.
\<close>

definition sys_isvpcb :: "'x env \<Rightarrow> 'x kstate \<Rightarrow> ((int, 'x kstate) res) option" where
  "sys_isvpcb env s =
     (case save_uvm env (cprintf ''Parent PID: %d\<newline>'' [p_pid s] s) of
        None \<Rightarrow> None
      | Some (Inl e) \<Rightarrow> Some (Inl e)
      | Some (Inr s1) \<Rightarrow>
     (case save_context env s1 of
        Inl e \<Rightarrow> Some (Inl e)
      | Inr s2 \<Rightarrow>
     (case save_trapframe env s2 of
        Inl e \<Rightarrow> Some (Inl e)
      | Inr s3 \<Rightarrow>
     (case save_proc env s3 of
        Inl e \<Rightarrow> Some (Inl e)
      | Inr s4 \<Rightarrow>
          let s5 = cprintf ''\<newline>*Write is done.*\<newline>\<newline>'' [] s4 in
          Some (Inl (Exit (kill env (p_pid s5) s5)))))))"

section \<open>Restore\<close>

text \<open>
  The three local buffers of \<^verbatim>\<open>sys_ildpcb\<close> (\<^verbatim>\<open>loaded_context\<close>,
  \<^verbatim>\<open>loaded_tf\<close>, \<^verbatim>\<open>loaded_proc\<close>) lie on the kernel stack of the caller, in
  memory, and are declared without an initialiser. Where they lie and what the stack
  holds there are inputs of the model. The stack of the running process is mapped.
\<close>

record locals =
  buf_context :: addr
  buf_tf :: addr
  buf_proc :: addr
  junk_context :: "byte list"
  junk_tf :: "byte list"
  junk_proc :: "byte list"

text \<open>What a buffer of \<open>n\<close> bytes that was never assigned holds.\<close>

definition local_buf :: "nat \<Rightarrow> byte list \<Rightarrow> byte list" where
  "local_buf n junk = take n junk @ replicate (n - length junk) 0"

text \<open>
  An assignment of a whole struct through a pointer, \<^verbatim>\<open>*p = v\<close>: the bytes of the
  value go to the addresses from \<open>p\<close> on, which must all be mapped.
\<close>

definition range_mapped :: "'x kstate \<Rightarrow> addr \<Rightarrow> nat \<Rightarrow> bool" where
  "range_mapped s p n = list_all (\<lambda>j. mapped s (p + of_nat j)) [0..<n]"

definition assign_through :: "addr \<Rightarrow> byte list \<Rightarrow> 'x kstate \<Rightarrow> 'x kstate stop + 'x kstate" where
  "assign_through p v s =
     (if range_mapped s p (length v) then Inr (s\<lparr>mem := store (mem s) p v\<rparr>) else Inl (Fault p))"

text \<open>
  \<^verbatim>\<open>sys_ildpcb\<close>, the restore system call, in the three parts its comments mark.

  "Creating files": open the five artifacts read-only, then take the five file pointers
  out of \<^verbatim>\<open>proc->ofile\<close>. No descriptor is compared with 0 before it indexes the
  array.
\<close>

record handles =
  h_pages_fd :: int
  h_context_fd :: int
  h_tf_fd :: int
  h_proc_fd :: int
  h_flag_fd :: int
  h_pages_f :: addr
  h_context_f :: addr
  h_tf_f :: addr
  h_proc_f :: addr
  h_flag_f :: addr

definition ildpcb_open :: "'x env \<Rightarrow> 'x kstate \<Rightarrow> (handles, 'x kstate) res" where
  "ildpcb_open env s =
     then_res (the_opener env ''pages'' O_RDONLY s) (\<lambda>pages_fd s1.
     then_res (the_opener env ''context'' O_RDONLY s1) (\<lambda>context_fd s2.
     then_res (the_opener env ''trapframe'' O_RDONLY s2) (\<lambda>tf_fd s3.
     then_res (the_opener env ''proc'' O_RDONLY s3) (\<lambda>proc_fd s4.
     then_res (the_opener env ''flag'' O_RDONLY s4) (\<lambda>flag_fd s5.
     case ofile_at s5 pages_fd of None \<Rightarrow> Inl (Undefined ''proc->ofile[pages_fd]'') | Some pages_f \<Rightarrow>
     case ofile_at s5 context_fd of None \<Rightarrow> Inl (Undefined ''proc->ofile[context_fd]'') | Some context_f \<Rightarrow>
     case ofile_at s5 tf_fd of None \<Rightarrow> Inl (Undefined ''proc->ofile[tf_fd]'') | Some tf_f \<Rightarrow>
     case ofile_at s5 proc_fd of None \<Rightarrow> Inl (Undefined ''proc->ofile[proc_fd]'') | Some proc_f \<Rightarrow>
     case ofile_at s5 flag_fd of None \<Rightarrow> Inl (Undefined ''proc->ofile[flag_fd]'') | Some flag_f \<Rightarrow>
     Inr (\<lparr>h_pages_fd = pages_fd, h_context_fd = context_fd, h_tf_fd = tf_fd,
           h_proc_fd = proc_fd, h_flag_fd = flag_fd, h_pages_f = pages_f,
           h_context_f = context_f, h_tf_f = tf_f, h_proc_f = proc_f, h_flag_f = flag_f\<rparr>, s5))))))"

text \<open>
  "Reading files": read the three records into the three local buffers and print
  \<^verbatim>\<open>Read was successful.\<close>. \<^verbatim>\<open>fileread\<close> puts the bytes it delivers, the buffer's
  size at most, at the start of the buffer. The result holds what the three buffers
  contain after the reads, and the three counts the reads returned, which the code drops.
\<close>

record buffers =
  loaded_context :: "byte list"
  loaded_tf :: "byte list"
  loaded_proc :: "byte list"
  read_counts :: "int list"

definition ildpcb_read :: "'x env \<Rightarrow> locals \<Rightarrow> handles \<Rightarrow> 'x kstate \<Rightarrow> buffers \<times> 'x kstate" where
  "ildpcb_read env lc h s =
     (let s0 = s\<lparr>mem := store (store (store (mem s)
                    (buf_context lc) (local_buf (sizeof_context env) (junk_context lc)))
                    (buf_tf lc) (local_buf (sizeof_trapframe env) (junk_tf lc)))
                    (buf_proc lc) (local_buf (sizeof_proc env) (junk_proc lc))\<rparr>
      in
      case fileread env (h_context_f h) (int (sizeof_context env)) s0 of ((n1, d1), s1) \<Rightarrow>
      let s1' = s1\<lparr>mem := store (mem s1) (buf_context lc) (take (sizeof_context env) d1)\<rparr> in
      case fileread env (h_tf_f h) (int (sizeof_trapframe env)) s1' of ((n2, d2), s2) \<Rightarrow>
      let s2' = s2\<lparr>mem := store (mem s2) (buf_tf lc) (take (sizeof_trapframe env) d2)\<rparr> in
      case fileread env (h_proc_f h) (int (sizeof_proc env)) s2' of ((n3, d3), s3) \<Rightarrow>
      let s3' = s3\<lparr>mem := store (mem s3) (buf_proc lc) (take (sizeof_proc env) d3)\<rparr>;
          b = \<lparr>loaded_context = load (mem s3') (buf_context lc) (sizeof_context env),
               loaded_tf = load (mem s3') (buf_tf lc) (sizeof_trapframe env),
               loaded_proc = load (mem s3') (buf_proc lc) (sizeof_proc env),
               read_counts = [n1, n2, n3]\<rparr>
      in (b, cprintf ''Read was successful.\<newline>'' [] s3'))"

text \<open>
  The two assignments that follow, \<^verbatim>\<open>*loaded_proc.context = loaded_context;\<close> and
  \<^verbatim>\<open>*loaded_proc.tf = loaded_tf;\<close>: each takes the pointer out of the
  \<^verbatim>\<open>loaded_proc\<close> buffer as it is then, and stores the bytes of the other buffer
  through it.
\<close>

definition ildpcb_install :: "'x env \<Rightarrow> locals \<Rightarrow> 'x kstate \<Rightarrow> 'x kstate stop + 'x kstate" where
  "ildpcb_install env lc s =
     (case assign_through (lp_context env (load (mem s) (buf_proc lc) (sizeof_proc env)))
             (load (mem s) (buf_context lc) (sizeof_context env)) s of
        Inl e \<Rightarrow> Inl e
      | Inr s1 \<Rightarrow>
          assign_through (lp_tf env (load (mem s1) (buf_proc lc) (sizeof_proc env)))
            (load (mem s1) (buf_tf lc) (sizeof_trapframe env)) s1)"

definition ildpcb_load :: "'x env \<Rightarrow> locals \<Rightarrow> handles \<Rightarrow> 'x kstate \<Rightarrow> (buffers, 'x kstate) res" where
  "ildpcb_load env lc h s =
     (case ildpcb_read env lc h s of (b, s1) \<Rightarrow>
      case ildpcb_install env lc s1 of Inl e \<Rightarrow> Inl e | Inr s2 \<Rightarrow> Inr (b, s2))"

text \<open>
  The end of the call: the five slots of \<^verbatim>\<open>proc->ofile\<close> cleared and the five files
  closed.
\<close>

definition ildpcb_close :: "'x env \<Rightarrow> handles \<Rightarrow> 'x kstate \<Rightarrow> 'x kstate" where
  "ildpcb_close env h s =
     (let s1 = ofile_clear (h_proc_fd h) (ofile_clear (h_flag_fd h) (ofile_clear (h_tf_fd h)
                 (ofile_clear (h_context_fd h) (ofile_clear (h_pages_fd h) s))))
      in fileclose env (h_proc_f h) (fileclose env (h_flag_f h) (fileclose env (h_tf_f h)
           (fileclose env (h_context_f h) (fileclose env (h_pages_f h) s1)))))"

text \<open>
  The whole call: open, read and assign, \<^verbatim>\<open>load_the_proc\<close> on the address of the
  loaded record and the pages and flag files, close, and return what
  \<^verbatim>\<open>load_the_proc\<close> returned.
\<close>

definition sys_ildpcb :: "'x env \<Rightarrow> locals \<Rightarrow> 'x kstate \<Rightarrow> (int, 'x kstate) res" where
  "sys_ildpcb env lc s =
     then_res (ildpcb_open env s) (\<lambda>h s1.
     then_res (ildpcb_load env lc h s1) (\<lambda>b s2.
       case e_load_the_proc env (buf_proc lc) (h_pages_f h) (h_flag_f h) s2 of (pid, s3) \<Rightarrow>
       Inr (pid, ildpcb_close env h s3)))"

section \<open>Notions used in the statements\<close>

text \<open>
  The part of the state outside the kernel component: \<^verbatim>\<open>proc->ofile\<close>, the other
  fields of the process, memory and what is mapped.
\<close>

definition pf :: "'x kstate \<Rightarrow> (nat \<Rightarrow> addr) \<times> uint \<times> int \<times> addr \<times> addr \<times> addr \<times> (addr \<Rightarrow> byte) \<times> (addr \<Rightarrow> bool)" where
  "pf s = (ofile s, p_sz s, p_pid s, p_pgdir s, p_tf s, p_context s, mem s, mapped s)"

text \<open>
  What an open that returned \<open>fd\<close> did to the process: nothing but \<^verbatim>\<open>proc->ofile\<close>
  changed; a failed open left the table as it was; a successful one filled one slot that
  was free, with a file pointer that is not null.
\<close>

definition opened :: "'x kstate \<Rightarrow> int \<Rightarrow> 'x kstate \<Rightarrow> bool" where
  "opened s fd s' \<longleftrightarrow>
     snd (pf s') = snd (pf s) \<and>
     (fd < 0 \<longrightarrow> ofile s' = ofile s) \<and>
     (0 \<le> fd \<longrightarrow> nat fd < NOFILE \<and> ofile s (nat fd) = 0 \<and> ofile s' (nat fd) \<noteq> 0 \<and>
           ofile s' = (ofile s)(nat fd := ofile s' (nat fd)))"

text \<open>
  The page sweep as the spec describes it. A process of size \<open>S\<close> has
  \<open>\<lceil>S / 4096\<rceil>\<close> pages, numbered from 0; page \<open>k\<close> has the page-table entry of
  address \<open>k * 4096\<close>, its content block is the 4096 bytes of its frame and its
  permission word the flag bits of its entry.
\<close>

definition npages :: "'x kstate \<Rightarrow> nat" where
  "npages s = (unat (p_sz s) + 4095) div 4096"

definition pte_of :: "'x env \<Rightarrow> 'x kstate \<Rightarrow> nat \<Rightarrow> uint option" where
  "pte_of env s k = ns_walkpgdir env s (of_nat k * PGSIZE)"

definition page_block :: "'x env \<Rightarrow> 'x kstate \<Rightarrow> nat \<Rightarrow> byte list" where
  "page_block env s k = (case pte_of env s k of None \<Rightarrow> [] | Some pte \<Rightarrow> load (mem s) (p2v (PTE_ADDR pte)) 4096)"

definition page_flags :: "'x env \<Rightarrow> 'x kstate \<Rightarrow> nat \<Rightarrow> uint" where
  "page_flags env s k = (case pte_of env s k of None \<Rightarrow> 0 | Some pte \<Rightarrow> PTE_FLAGS pte)"

text \<open>
  What the sweep does for page \<open>k\<close>: the content block goes to the pages file, the
  permission word goes to the flag file right after it, and a line goes to the console.
  The snapshot is this, for the pages \<open>0, 1, \<dots>, npages - 1\<close> in this order.
\<close>

definition sweep_page :: "'x env \<Rightarrow> addr \<Rightarrow> addr \<Rightarrow> nat \<Rightarrow> 'x kstate \<Rightarrow> 'x kstate" where
  "sweep_page env f f2 k st =
     cprintf ''Written UVM Page %d.\<newline>'' [int k]
       (snd (filewrite env f2 (uint_bytes (page_flags env st k)) 4
         (snd (filewrite env f (page_block env st k) 4096 st))))"

definition snapshot_sweep :: "'x env \<Rightarrow> addr \<Rightarrow> addr \<Rightarrow> 'x kstate \<Rightarrow> 'x kstate" where
  "snapshot_sweep env f f2 s = fold (sweep_page env f f2) [0..<npages s] s"

text \<open>
  The valid-process precondition: every page of the process is mapped and present. And
  the condition that no write of a content block is short: the write of page \<open>k\<close>,
  made after the pages before it were written, transfers 4096 bytes.
\<close>

definition all_present :: "'x env \<Rightarrow> 'x kstate \<Rightarrow> bool" where
  "all_present env s = (\<forall>k<npages s. case pte_of env s k of None \<Rightarrow> False | Some pte \<Rightarrow> pte AND PTE_P \<noteq> 0)"

definition page_writes_full :: "'x env \<Rightarrow> addr \<Rightarrow> addr \<Rightarrow> 'x kstate \<Rightarrow> bool" where
  "page_writes_full env f f2 s =
     (\<forall>k<npages s. fst (filewrite env f (page_block env s k) 4096 (fold (sweep_page env f f2) [0..<k] s)) = 4096)"

text \<open>
  The same two conditions for the pages before page \<open>k\<close> only: what it takes for the
  sweep to get as far as page \<open>k\<close>.
\<close>

definition present_below :: "'x env \<Rightarrow> 'x kstate \<Rightarrow> nat \<Rightarrow> bool" where
  "present_below env s k =
     (\<forall>j<k. case pte_of env s j of None \<Rightarrow> False | Some pte \<Rightarrow> pte AND PTE_P \<noteq> 0)"

definition page_writes_full_below :: "'x env \<Rightarrow> addr \<Rightarrow> addr \<Rightarrow> 'x kstate \<Rightarrow> nat \<Rightarrow> bool" where
  "page_writes_full_below env f f2 s k =
     (\<forall>j<k. fst (filewrite env f (page_block env s j) 4096 (fold (sweep_page env f f2) [0..<j] s)) = 4096)"

definition page_aligned :: "uint \<Rightarrow> bool" where
  "page_aligned va \<longleftrightarrow> unat va mod 4096 = 0"

text \<open>The state an outcome ends in, when it has one.\<close>

definition out_state :: "'s stop + 's \<Rightarrow> 's option" where
  "out_state r = (case r of Inr s \<Rightarrow> Some s | Inl (Exit s) \<Rightarrow> Some s
                  | Inl (Panic m s) \<Rightarrow> Some s | Inl (Undefined m) \<Rightarrow> None
                  | Inl (Fault a) \<Rightarrow> None)"

text \<open>
  What every outcome of the page loop satisfies: the process and memory are as before,
  an exit comes right after the write diagnostic, no array access is undefined and no
  store faults.
\<close>

definition sweep_ok :: "'x kstate \<Rightarrow> 'x kstate stop + 'x kstate \<Rightarrow> bool" where
  "sweep_ok st r \<longleftrightarrow>
     (case r of
        Inr s' \<Rightarrow> pf s' = pf st
      | Inl (Exit s') \<Rightarrow> pf s' = pf st \<and> (\<exists>s''. s' = cprintf ''Error:Failed to write UVM file.\<newline>'' [] s'')
      | Inl (Panic m s') \<Rightarrow> pf s' = pf st
      | Inl (Undefined m) \<Rightarrow> False
      | Inl (Fault a) \<Rightarrow> False)"

text \<open>
  The diagnostics of \<^verbatim>\<open>sys_isvpcb\<close>; a state is diagnosed when the last line of
  the console is one of them. The checkpoint is completed when its four parts returned
  in turn and the caller was then killed.
\<close>

definition error_diagnostics :: "string list" where
  "error_diagnostics =
     [''Error:Failed to create UVM file.\<newline>'', ''Error:Failed to write UVM file.\<newline>'',
      ''Error:Failed to create context file.\<newline>'', ''Error:Failed to write context file.\<newline>'',
      ''Error:Failed to create trapframe file.\<newline>'', ''Error:Failed to write trapframe file.\<newline>'',
      ''Error:Failed to create proc file.\<newline>'', ''Error:Failed to write proc file.\<newline>'']"

definition diagnosed :: "'x kstate \<Rightarrow> bool" where
  "diagnosed s \<longleftrightarrow> console (kern s) \<noteq> [] \<and> fst (last (console (kern s))) \<in> set error_diagnostics"

definition checkpoint_completed :: "'x env \<Rightarrow> 'x kstate \<Rightarrow> 'x kstate \<Rightarrow> bool" where
  "checkpoint_completed env s s' \<longleftrightarrow>
     (\<exists>s1 s2 s3 s4.
        save_uvm env (cprintf ''Parent PID: %d\<newline>'' [p_pid s] s) = Some (Inr s1) \<and>
        save_context env s1 = Inr s2 \<and>
        save_trapframe env s2 = Inr s3 \<and>
        save_proc env s3 = Inr s4 \<and>
        s' = kill env (p_pid s4) (cprintf ''\<newline>*Write is done.*\<newline>\<newline>'' [] s4))"

text \<open>
  Restore. Memory once the three reads of \<^verbatim>\<open>sys_ildpcb\<close> have delivered \<open>d1\<close>,
  \<open>d2\<close> and \<open>d3\<close>: the three buffers hold what the stack held, and over it, from
  their start, the bytes delivered, the buffer's size at most.
\<close>

definition buffers_mem ::
  "'x env \<Rightarrow> locals \<Rightarrow> (addr \<Rightarrow> byte) \<Rightarrow> byte list \<Rightarrow> byte list \<Rightarrow> byte list \<Rightarrow> addr \<Rightarrow> byte" where
  "buffers_mem env lc m d1 d2 d3 =
     store (store (store (store (store (store m
       (buf_context lc) (local_buf (sizeof_context env) (junk_context lc)))
       (buf_tf lc) (local_buf (sizeof_trapframe env) (junk_tf lc)))
       (buf_proc lc) (local_buf (sizeof_proc env) (junk_proc lc)))
       (buf_context lc) (take (sizeof_context env) d1))
       (buf_tf lc) (take (sizeof_trapframe env) d2))
       (buf_proc lc) (take (sizeof_proc env) d3)"




section \<open>A concrete kernel\<close>

text \<open>
  A small instance of the primitives, for the concrete inputs of the witnesses. Names
  resolve to inodes as \<open>names\<close> says (0 for a missing file) and an inode holds the bytes
  \<open>disk\<close> gives it; the page directory of the process maps page 0 and page 1, the one
  at address 8192 maps page 0 with an entry that is not present, the one at 12288 maps
  page 0 only, the one at 16384 maps page 0 and has an entry that is not present for
  page 1, any other maps nothing; the addresses from 2147483648 up to 2382364672 are
  mapped;
  a file of the file table is free while its type is 0, and
  \<^verbatim>\<open>filealloc\<close> hands out the first free one of five; \<^verbatim>\<open>filewrite\<close> returns what
  \<open>wr\<close> says for the inode and the requested count and appends the inode of the file and the bytes
  to the log of writes, which is all the rest of this kernel holds; \<^verbatim>\<open>struct proc\<close> is laid out as
  its \<^verbatim>\<open>tf\<close> pointer followed by its \<^verbatim>\<open>context\<close> pointer.
\<close>

definition le32 :: "byte list \<Rightarrow> uint" where
  "le32 bs = foldr (\<lambda>b w. ucast b + 256 * w) bs 0"

definition demo_names :: "string \<Rightarrow> addr" where
  "demo_names p =
     (if p = ''pages'' then 16 else if p = ''context'' then 32 else if p = ''trapframe'' then 48
      else if p = ''proc'' then 64 else if p = ''flag'' then 80 else 0)"

definition demo_disk :: "addr \<Rightarrow> byte list" where
  "demo_disk ip =
     (if ip = 32 then [171, 172, 173, 174]
      else if ip = 48 then [186, 187, 188, 189]
      else if ip = 64 then [0, 16, 0, 128, 0, 32, 0, 128]
      else [])"

definition demo_env ::
  "(string \<Rightarrow> addr) \<Rightarrow> (addr \<Rightarrow> byte list) \<Rightarrow> (addr \<Rightarrow> int \<Rightarrow> int) \<Rightarrow>
     (addr \<times> byte list) list env" where
  "demo_env names disk wr =
     \<lparr>e_begin_op = (\<lambda>k. k),
      e_end_op = (\<lambda>k. k),
      e_namei = (\<lambda>p k. (names p, k)),
      e_nameiparent = (\<lambda>p k. ((1, p), k)),
      e_ilock = (\<lambda>ip k. k),
      e_iunlock = (\<lambda>ip k. k),
      e_iunlockput = (\<lambda>ip k. k),
      e_iupdate = (\<lambda>ip k. k),
      e_dirlookup = (\<lambda>dp name k. (names name, k)),
      e_ialloc = (\<lambda>dev type k. (96, k)),
      e_dirlink = (\<lambda>dp name inum k. (0, k)),
      e_filealloc = (\<lambda>k. (if f_type (files k 256) = 0 then 256
                          else if f_type (files k 272) = 0 then 272
                          else if f_type (files k 288) = 0 then 288
                          else if f_type (files k 304) = 0 then 304
                          else if f_type (files k 320) = 0 then 320 else 0, k)),
      e_fileclose = (\<lambda>f k. k\<lparr>files := (files k)(f := (files k f)\<lparr>f_type := 0\<rparr>)\<rparr>),
      e_filewrite = (\<lambda>f src n k. (wr (f_ip (files k f)) n,
                                 k\<lparr>ext := ext k @ [(f_ip (files k f), src)]\<rparr>)),
      e_fileread = (\<lambda>f n k. ((int (length (take (nat n) (disk (f_ip (files k f))))),
                               take (nat n) (disk (f_ip (files k f)))), k)),
      e_kill = (\<lambda>pid k. k),
      e_ns_walkpgdir = (\<lambda>m pgdir va.
         if pgdir = 2382356480 then [0 \<mapsto> 4103, 1 \<mapsto> 8197] (drop_bit 12 va)
         else if pgdir = 8192 then [0 \<mapsto> 4102] (drop_bit 12 va)
         else if pgdir = 12288 then [0 \<mapsto> 4103] (drop_bit 12 va)
         else if pgdir = 16384 then [0 \<mapsto> 4103, 1 \<mapsto> 8196] (drop_bit 12 va) else None),
      e_argstr = (\<lambda>n s. (0, ''pages'')),
      e_argint = (\<lambda>n s. (0, 0)),
      e_load_the_proc = (\<lambda>lp pages_f flag_f s. (7, s)),
      sizeof_context = 4,
      sizeof_trapframe = 4,
      sizeof_proc = 8,
      proc_image = (\<lambda>s. uint_bytes (p_tf s) @ uint_bytes (p_context s)),
      lp_context = (\<lambda>bs. le32 (take 4 (drop 4 bs))),
      lp_tf = (\<lambda>bs. le32 (take 4 bs))\<rparr>"

definition demo_state :: "(addr \<times> byte list) list kstate" where
  "demo_state =
     \<lparr>ofile = (\<lambda>n. 0),
      p_sz = 8192,
      p_pid = 3,
      p_pgdir = 2382356480,
      p_tf = 2382360576,
      p_context = 2382360512,
      mem = (\<lambda>a. 0),
      mapped = (\<lambda>a. 2147483648 \<le> a \<and> a < 2382364672),
      kern = \<lparr>files = (\<lambda>f. \<lparr>f_type = 0, f_ip = 0, f_off = 0, f_readable = False, f_writable = False\<rparr>),
              inodes = (\<lambda>ip. \<lparr>i_dev = 1, i_inum = 0, i_type = 2, i_major = 0, i_minor = 0, i_nlink = 1\<rparr>),
              console = [],
              ext = []\<rparr>\<rparr>"

text \<open>The state a call ended in with \<^verbatim>\<open>exit()\<close>.\<close>

definition exit_state :: "('s stop + 'a) option \<Rightarrow> 's option" where
  "exit_state r = (case r of Some (Inl (Exit s)) \<Rightarrow> Some s | _ \<Rightarrow> None)"

definition demo :: "(addr \<times> byte list) list env" where
  "demo = demo_env demo_names demo_disk (\<lambda>ip n. n)"

text \<open>The same kernel without the pages artifact.\<close>

definition demo_missing :: "(addr \<times> byte list) list env" where
  "demo_missing = demo_env (demo_names(''pages'' := 0)) demo_disk (\<lambda>ip n. n)"

text \<open>The same kernel with an empty context artifact.\<close>

definition demo_short :: "(addr \<times> byte list) list env" where
  "demo_short = demo_env demo_names (demo_disk(32 := [])) (\<lambda>ip n. n)"

text \<open>
  The same kernel with a proc artifact whose \<^verbatim>\<open>context\<close> field is 2415919104, an
  address that is not mapped.
\<close>

definition demo_unmapped :: "(addr \<times> byte list) list env" where
  "demo_unmapped =
     demo_env demo_names (demo_disk(64 := [0, 16, 0, 128, 0, 0, 0, 144])) (\<lambda>ip n. n)"

text \<open>The same kernel where a write to the flag artifact fails.\<close>

definition demo_flagfail :: "(addr \<times> byte list) list env" where
  "demo_flagfail = demo_env demo_names demo_disk (\<lambda>ip n. if ip = 80 then - 1 else n)"

text \<open>The process with the pages and the flag artifacts open, as descriptors 0 and 1.\<close>

definition demo_opened :: "(addr \<times> byte list) list kstate" where
  "demo_opened =
     demo_state\<lparr>ofile := (\<lambda>n. 0)(0 := 256, 1 := 272),
       kern := (kern demo_state)\<lparr>files := (files (kern demo_state))
         (256 := \<lparr>f_type = 2, f_ip = 16, f_off = 0, f_readable = True, f_writable = True\<rparr>,
          272 := \<lparr>f_type = 2, f_ip = 80, f_off = 0, f_readable = True, f_writable = True\<rparr>)\<rparr>\<rparr>"

text \<open>The process with fifteen of its sixteen descriptors taken.\<close>

definition demo_crowded :: "(addr \<times> byte list) list kstate" where
  "demo_crowded = demo_state\<lparr>ofile := (\<lambda>n. if n < 15 then 999 else 0)\<rparr>"

text \<open>
  The handles and the process once restore has opened the five artifacts, as
  descriptors 0 to 4.
\<close>

definition demo_handles :: handles where
  "demo_handles =
     \<lparr>h_pages_fd = 0, h_context_fd = 1, h_tf_fd = 2, h_proc_fd = 3, h_flag_fd = 4,
      h_pages_f = 256, h_context_f = 272, h_tf_f = 288, h_proc_f = 304, h_flag_f = 320\<rparr>"

definition demo_restoring :: "(addr \<times> byte list) list kstate" where
  "demo_restoring =
     demo_state\<lparr>ofile := (\<lambda>n. 0)(0 := 256, 1 := 272, 2 := 288, 3 := 304, 4 := 320),
       kern := (kern demo_state)\<lparr>files := (files (kern demo_state))
         (256 := \<lparr>f_type = 2, f_ip = 16, f_off = 0, f_readable = True, f_writable = False\<rparr>,
          272 := \<lparr>f_type = 2, f_ip = 32, f_off = 0, f_readable = True, f_writable = False\<rparr>,
          288 := \<lparr>f_type = 2, f_ip = 48, f_off = 0, f_readable = True, f_writable = False\<rparr>,
          304 := \<lparr>f_type = 2, f_ip = 64, f_off = 0, f_readable = True, f_writable = False\<rparr>,
          320 := \<lparr>f_type = 2, f_ip = 80, f_off = 0, f_readable = True, f_writable = False\<rparr>)\<rparr>\<rparr>"

text \<open>
  The three buffers of restore lie apart on the kernel stack, which is mapped, and hold
  these bytes before the call.
\<close>

definition demo_junk :: locals where
  "demo_junk =
     \<lparr>buf_context = 2382352384, buf_tf = 2382352400, buf_proc = 2382352416,
      junk_context = [1, 2, 3, 4], junk_tf = [5, 6, 7, 8], junk_proc = [9, 9, 9, 9, 9, 9, 9, 9]\<rparr>"

text \<open>
  Restore on the concrete kernel: what the reads and the two assignments of
  \<^verbatim>\<open>sys_ildpcb\<close> give on the handles and the state its open part gives, when no
  assignment faults.
\<close>

definition demo_loaded ::
  "(addr \<times> byte list) list env \<Rightarrow> buffers \<times> (addr \<times> byte list) list kstate" where
  "demo_loaded env =
     projr (ildpcb_load env demo_junk (fst (projr (ildpcb_open env demo_state)))
       (snd (projr (ildpcb_open env demo_state))))"

section \<open>What the primitives and an open leave unchanged\<close>

lemma pf_on_kern [simp]: "pf (on_kern g s) = pf s"
  by (simp add: pf_def on_kern_def)

lemma pf_in_kern: "in_kern g s = (r, s') \<Longrightarrow> pf s' = pf s"
  by (auto simp: pf_def in_kern_def split: prod.splits)

lemma pf_simple [simp]:
  "pf (begin_op env s) = pf s" "pf (end_op env s) = pf s" "pf (ilock env ip s) = pf s"
  "pf (iunlock env ip s) = pf s" "pf (iunlockput env ip s) = pf s" "pf (iupdate env ip s) = pf s"
  "pf (fileclose env f s) = pf s" "pf (kill env pid s) = pf s" "pf (cprintf fmt args s) = pf s"
  by (simp_all add: begin_op_def end_op_def ilock_def iunlock_def iunlockput_def iupdate_def
      fileclose_def kill_def cprintf_def)

lemma pf_pairs:
  "namei env path s = (r1, s') \<Longrightarrow> pf s' = pf s"
  "nameiparent env path s = (r2, s') \<Longrightarrow> pf s' = pf s"
  "dirlookup env dp name s = (r3, s') \<Longrightarrow> pf s' = pf s"
  "ialloc env dev type s = (r4, s') \<Longrightarrow> pf s' = pf s"
  "dirlink env dp name inum s = (r5, s') \<Longrightarrow> pf s' = pf s"
  "filealloc env s = (r6, s') \<Longrightarrow> pf s' = pf s"
  "filewrite env f src n s = (r7, s') \<Longrightarrow> pf s' = pf s"
  "fileread env f n s = (r8, s') \<Longrightarrow> pf s' = pf s"
  by (auto simp: namei_def nameiparent_def dirlookup_def ialloc_def dirlink_def filealloc_def
      filewrite_def fileread_def dest: pf_in_kern)

lemma create_pf: "create env path type major minor s = Inr (ip, s') \<Longrightarrow> pf s' = pf s"
  unfolding create_def
  by (auto simp: Let_def split: prod.splits if_splits sum.splits dest!: pf_pairs)




lemma fdalloc_from_cases:
  "fdalloc_from k f s = (fd, s') \<Longrightarrow>
     (fd = -1 \<and> s' = s) \<or>
     (0 \<le> fd \<and> k \<le> nat fd \<and> nat fd < NOFILE \<and> ofile s (nat fd) = 0 \<and>
      s' = s\<lparr>ofile := (ofile s)(nat fd := f)\<rparr>)"
proof (induction k f s rule: fdalloc_from.induct)
  case (1 k f s)
  show ?case
  proof (cases "k < NOFILE")
    case False
    then have "fdalloc_from k f s = (-1, s)"
      by (subst fdalloc_from.simps) simp
    with "1.prems" show ?thesis by simp
  next
    case lt: True
    show ?thesis
    proof (cases "ofile s k = 0")
      case True
      with lt have "fdalloc_from k f s = (int k, s\<lparr>ofile := (ofile s)(k := f)\<rparr>)"
        by (subst fdalloc_from.simps) simp
      with "1.prems" have "fd = int k" "s' = s\<lparr>ofile := (ofile s)(k := f)\<rparr>"
        by simp_all
      with lt True show ?thesis by (simp add: fun_upd_def)
    next
      case False
      with lt have "fdalloc_from k f s = fdalloc_from (Suc k) f s"
        by (subst fdalloc_from.simps) simp
      with "1.prems" have "fdalloc_from (Suc k) f s = (fd, s')" by simp
      from "1.IH" [OF lt False this] show ?thesis by auto
    qed
  qed
qed

lemma fdalloc_cases:
  "fdalloc f s = (fd, s') \<Longrightarrow>
     (fd = -1 \<and> s' = s) \<or>
     (0 \<le> fd \<and> nat fd < NOFILE \<and> ofile s (nat fd) = 0 \<and>
      s' = s\<lparr>ofile := (ofile s)(nat fd := f)\<rparr>)"
  unfolding fdalloc_def by (drule fdalloc_from_cases) blast

lemma opened_fail: "pf s' = pf s \<Longrightarrow> opened s (-1) s'"
  by (simp add: opened_def pf_def)

lemma opened_pf: "pf s1 = pf s \<Longrightarrow> opened s1 fd s' \<Longrightarrow> opened s fd s'"
  by (simp add: opened_def pf_def)

lemma the_opener_rest_Inr:
  assumes "the_opener_rest env omode ip s = Inr (fd, s')"
  shows "opened s fd s'"
proof -
  obtain f s1 where fa: "filealloc env s = (f, s1)" by force
  then have p1: "pf s1 = pf s" by (rule pf_pairs)
  show ?thesis
  proof (cases "f = 0")
    case True
    with assms fa have "fd = -1" "s' = end_op env (iunlockput env ip s1)"
      by (simp_all add: the_opener_rest_def)
    with p1 show ?thesis by (simp add: opened_fail)
  next
    case False
    obtain fd2 s2 where fd: "fdalloc f s1 = (fd2, s2)" by force
    from fdalloc_cases [OF fd] show ?thesis
    proof
      assume a: "fd2 = -1 \<and> s2 = s1"
      with assms fa fd False have "fd = -1" "s' = end_op env (iunlockput env ip (fileclose env f s1))"
        by (simp_all add: the_opener_rest_def)
      with p1 show ?thesis by (simp add: opened_fail)
    next
      assume a: "0 \<le> fd2 \<and> nat fd2 < NOFILE \<and> ofile s1 (nat fd2) = 0 \<and>
         s2 = s1\<lparr>ofile := (ofile s1)(nat fd2 := f)\<rparr>"
      with assms fa fd False have "fd = fd2" and
        s': "s' = on_kern (\<lambda>k. k\<lparr>files := (files k)
                (f := (files k f)\<lparr>f_type := FD_INODE, f_ip := ip, f_off := 0,
                       f_readable := (omode AND O_WRONLY = 0),
                       f_writable := (omode AND O_WRONLY \<noteq> 0 \<or> omode AND O_RDWR \<noteq> 0)\<rparr>)\<rparr>)
                (end_op env (iunlock env ip s2))"
        by (auto simp: the_opener_rest_def)
      have "pf s' = pf s2" unfolding s' by simp
      with a p1 False \<open>fd = fd2\<close> show ?thesis
        by (simp add: opened_def pf_def)
    qed
  qed
qed

lemma the_opener_Inr:
  assumes "the_opener env p om s = Inr (fd, s')"
  shows "opened s fd s'"
proof (cases "om AND O_CREATE \<noteq> 0")
  case True
  with assms obtain ip s2 where c: "create env p T_FILE 0 0 (begin_op env s) = Inr (ip, s2)"
    and r: "(if ip = 0 then Inr (-1, end_op env s2) else the_opener_rest env om ip s2) = Inr (fd, s')"
    by (auto simp: the_opener_def Let_def split: sum.splits)
  from create_pf [OF c] have p2: "pf s2 = pf s" by simp
  show ?thesis
  proof (cases "ip = 0")
    case True
    with r p2 show ?thesis by (auto simp: opened_fail)
  next
    case False
    with r have "opened s2 fd s'" by (simp add: the_opener_rest_Inr)
    with p2 show ?thesis by (rule opened_pf)
  qed
next
  case False
  obtain ip s2 where n: "namei env p (begin_op env s) = (ip, s2)" by force
  from pf_pairs(1) [OF n] have p2: "pf s2 = pf s" by simp
  show ?thesis
  proof (cases "ip = 0")
    case True
    with assms False n have "fd = -1" "s' = end_op env s2"
      by (simp_all add: the_opener_def Let_def)
    with p2 show ?thesis by (simp add: opened_fail)
  next
    case nz: False
    show ?thesis
    proof (cases "i_type (inodes (kern (ilock env ip s2)) ip) = T_DIR \<and> om \<noteq> O_RDONLY")
      case True
      with assms False n nz have "fd = -1" "s' = end_op env (iunlockput env ip (ilock env ip s2))"
        by (simp_all add: the_opener_def Let_def)
      with p2 show ?thesis by (simp add: opened_fail)
    next
      case nd: False
      with assms False n nz have "the_opener_rest env om ip (ilock env ip s2) = Inr (fd, s')"
        by (simp add: the_opener_def Let_def)
      then have "opened (ilock env ip s2) fd s'" by (rule the_opener_rest_Inr)
      moreover have "pf (ilock env ip s2) = pf s" using p2 by simp
      ultimately show ?thesis by (rule opened_pf [rotated])
    qed
  qed
qed

section \<open>The page loop\<close>

lemma pf_snd_pairs [simp]:
  "pf (snd (filewrite env f src n s)) = pf s"
  by (cases "filewrite env f src n s") (simp add: pf_pairs)

lemma pf_sweep_page [simp]: "pf (sweep_page env f f2 k st) = pf st"
  by (simp add: sweep_page_def)

lemma pf_fold_sweep [simp]: "pf (fold (sweep_page env f f2) ks st) = pf st"
  by (induction ks arbitrary: st) simp_all

lemma pf_fields:
  assumes "pf s' = pf s"
  shows "ofile s' = ofile s" "p_sz s' = p_sz s" "p_pid s' = p_pid s" "p_pgdir s' = p_pgdir s"
    "p_tf s' = p_tf s" "p_context s' = p_context s" "mem s' = mem s" "mapped s' = mapped s"
  using assms by (simp_all add: pf_def)

lemma pf_derived:
  assumes "pf s' = pf s"
  shows "npages s' = npages s" "pte_of env s' k = pte_of env s k" "page_block env s' k = page_block env s k"
    "page_flags env s' k = page_flags env s k"
  using pf_fields [OF assms]
  by (simp_all add: npages_def pte_of_def ns_walkpgdir_def page_block_def page_flags_def
      split: option.split)

lemma unat_page_addr:
  assumes "k * 4096 < 2 ^ 32"
  shows "unat (of_nat k * PGSIZE :: uint) = k * 4096"
proof -
  from assms have k: "k < 2 ^ 32" by simp
  have "unat (of_nat k * PGSIZE :: uint) = unat (of_nat k :: uint) * unat PGSIZE mod 2 ^ 32"
    by (simp add: unat_word_ariths)
  also have "unat (of_nat k :: uint) = k"
    using k by (simp add: unat_of_nat)
  also have "unat PGSIZE = 4096" by (simp add: PGSIZE_def)
  finally show ?thesis using assms by simp
qed

lemma page_addr_Suc: "of_nat k * PGSIZE + PGSIZE = (of_nat (Suc k) * PGSIZE :: uint)"
  by (simp add: algebra_simps)

lemma page_index:
  assumes "k * 4096 < 2 ^ 32"
  shows "uint ((of_nat k * PGSIZE :: uint) div PGSIZE) = int k"
proof -
  have "unat ((of_nat k * PGSIZE :: uint) div PGSIZE) = unat (of_nat k * PGSIZE :: uint) div unat PGSIZE"
    by (simp add: unat_div)
  also have "\<dots> = k" using unat_page_addr [OF assms] by (simp add: PGSIZE_def)
  finally show ?thesis by (simp add: uint_nat)
qed

lemma sweep_iter:
  assumes lt: "(of_nat k * PGSIZE :: uint) < p_sz st"
    and small: "k * 4096 < 2 ^ 32"
    and pte: "pte_of env st k = Some pte" "pte AND PTE_P \<noteq> 0"
    and full: "fst (filewrite env f (page_block env st k) 4096 st) = 4096"
  shows "page_sweep env f f2 (of_nat k * PGSIZE) st =
         page_sweep env f f2 (of_nat (Suc k) * PGSIZE) (sweep_page env f f2 k st)"
proof -
  obtain r1 s1 where w1: "filewrite env f (page_block env st k) 4096 st = (r1, s1)" by force
  obtain r2 s2 where w2: "filewrite env f2 (uint_bytes (page_flags env st k)) 4 s1 = (r2, s2)" by force
  from full w1 have r1: "r1 = 4096" by simp
  have blk: "page_block env st k = load (mem st) (p2v (PTE_ADDR pte)) 4096"
    and flg: "page_flags env st k = PTE_FLAGS pte"
    using pte by (simp_all add: page_block_def page_flags_def)
  have walk: "ns_walkpgdir env st (of_nat k * PGSIZE) = Some pte"
    using pte by (simp add: pte_of_def)
  have pg: "unat PGSIZE = 4096" "uint PGSIZE = 4096" by (simp_all add: PGSIZE_def)
  have sp: "sweep_page env f f2 k st = cprintf ''Written UVM Page %d.\<newline>'' [int k] s2"
    using w1 w2 by (simp add: sweep_page_def)
  show ?thesis
    apply (subst page_sweep.simps)
    using lt walk pte(2) w1 w2 r1 blk flg
    by (simp add: Let_def pg sp page_index [OF small] page_addr_Suc del: of_nat_Suc)
qed

lemma sweep_end:
  assumes "\<not> (i < p_sz st)"
  shows "page_sweep env f f2 i st = Some (Inr st)"
  using assms by (subst page_sweep.simps) simp

lemma npages_bound:
  assumes "unat (p_sz s) \<le> 2 ^ 32 - 4096"
  shows "npages s * 4096 < 2 ^ 32"
  using assms unfolding npages_def by simp

lemma sweep_from:
  assumes bound: "unat (p_sz s) \<le> 2 ^ 32 - 4096"
    and pres: "all_present env s"
    and full: "page_writes_full env f f2 s"
    and le: "k \<le> npages s"
  shows "page_sweep env f f2 (of_nat k * PGSIZE) (fold (sweep_page env f f2) [0..<k] s) =
         Some (Inr (snapshot_sweep env f f2 s))"
  using le
proof (induction rule: inc_induct)
  case base
  let ?st = "fold (sweep_page env f f2) [0..<npages s] s"
  have "unat (of_nat (npages s) * PGSIZE :: uint) = npages s * 4096"
    by (rule unat_page_addr) (rule npages_bound [OF bound])
  moreover have "unat (p_sz s) \<le> npages s * 4096"
    unfolding npages_def by simp
  moreover have "p_sz ?st = p_sz s" by (rule pf_fields) simp
  ultimately have "\<not> (of_nat (npages s) * PGSIZE < p_sz ?st)"
    by (simp add: word_less_nat_alt)
  then show ?case by (simp add: sweep_end snapshot_sweep_def)
next
  case (step k)
  let ?st = "fold (sweep_page env f f2) [0..<k] s"
  have pfst: "pf ?st = pf s" by simp
  from step.hyps have small: "k * 4096 < 2 ^ 32"
    using npages_bound [OF bound] by simp
  from step.hyps have "k * 4096 < unat (p_sz s)"
    unfolding npages_def by simp
  then have lt: "(of_nat k * PGSIZE :: uint) < p_sz ?st"
    using unat_page_addr [OF small] pf_fields(2) [OF pfst] by (simp add: word_less_nat_alt)
  from pres step.hyps obtain pte where pte: "pte_of env s k = Some pte" "pte AND PTE_P \<noteq> 0"
    by (auto simp: all_present_def split: option.splits)
  from full step.hyps have w: "fst (filewrite env f (page_block env s k) 4096 ?st) = 4096"
    by (simp add: page_writes_full_def)
  have "page_sweep env f f2 (of_nat k * PGSIZE) ?st =
        page_sweep env f f2 (of_nat (Suc k) * PGSIZE) (sweep_page env f f2 k ?st)"
    using lt small pte w by (intro sweep_iter) (simp_all add: pf_derived [OF pfst])
  also have "sweep_page env f f2 k ?st = fold (sweep_page env f f2) [0..<Suc k] s"
    by simp
  finally show ?case using step.IH by simp
qed

lemma sweep_ok_pf: "pf st' = pf st \<Longrightarrow> sweep_ok st' r \<Longrightarrow> sweep_ok st r"
  by (simp add: sweep_ok_def split: sum.splits stop.splits)

lemma sweep_pf:
  assumes "page_sweep env f f2 i st = Some r"
  shows "sweep_ok st r"
proof (rule page_sweep.raw_induct [OF _ assms, where P = "\<lambda>_ _ _ _ st r. sweep_ok st r"], goal_cases)
  case (1 sweep env f f2 i st r)
  note IH = "1"(1) and body = "1"(2)
  show ?case
  proof (cases "i < p_sz st")
    case False
    with body show ?thesis by (auto simp: sweep_ok_def)
  next
    case True
    show ?thesis
    proof (cases "ns_walkpgdir env st i")
      case None
      with True body show ?thesis by (auto simp: sweep_ok_def)
    next
      case (Some pte)
      show ?thesis
      proof (cases "pte AND PTE_P = 0")
        case True
        with \<open>i < p_sz st\<close> Some body show ?thesis by (auto simp: sweep_ok_def)
      next
        case False
        obtain r1 s1 where w1: "filewrite env f (load (mem st) (p2v (PTE_ADDR pte)) (unat PGSIZE)) (uint PGSIZE) st = (r1, s1)" by force
        obtain r2 s2 where w2: "filewrite env f2 (uint_bytes (PTE_FLAGS pte)) 4 s1 = (r2, s2)" by force
        have p2: "pf s2 = pf st" using pf_pairs(7) [OF w1] pf_pairs(7) [OF w2] by simp
        show ?thesis
        proof (cases "r1 = uint PGSIZE")
          case False
          with \<open>i < p_sz st\<close> Some \<open>pte AND PTE_P \<noteq> 0\<close> w1 w2 body
          have "r = Inl (Exit (cprintf ''Error:Failed to write UVM file.\<newline>'' [] s2))"
            by (simp add: Let_def)
          with p2 show ?thesis by (auto simp: sweep_ok_def)
        next
          case True
          with \<open>i < p_sz st\<close> Some \<open>pte AND PTE_P \<noteq> 0\<close> w1 w2 body
          have "sweep env f f2 (i + PGSIZE) (cprintf ''Written UVM Page %d.\<newline>'' [uint (i div PGSIZE)] s2) = Some r"
            by (simp add: Let_def)
          then have "sweep_ok (cprintf ''Written UVM Page %d.\<newline>'' [uint (i div PGSIZE)] s2) r"
            by (rule IH)
          moreover have "pf (cprintf ''Written UVM Page %d.\<newline>'' [uint (i div PGSIZE)] s2) = pf st"
            using p2 by simp
          ultimately show ?thesis by (rule sweep_ok_pf [rotated])
        qed
      qed
    qed
  qed
qed

lemma page_aligned_next:
  assumes "page_aligned i"
  shows "page_aligned (i + PGSIZE)"
proof -
  have e1: "unat (i + 4096) = (unat i + 4096) mod 4294967296"
    by (simp add: unat_word_ariths)
  have "(unat i + 4096) mod 4294967296 mod 4096 = (unat i + 4096) mod 4096"
    by (rule mod_mod_cancel) simp
  also have "\<dots> = unat i mod 4096" by simp
  finally have "unat (i + 4096) mod 4096 = unat i mod 4096"
    by (simp only: e1)
  with assms show ?thesis by (simp only: page_aligned_def PGSIZE_def)
qed

lemma present_at:
  assumes "all_present env st" "page_aligned i" "i < p_sz st"
  shows "\<exists>pte. ns_walkpgdir env st i = Some pte \<and> pte AND PTE_P \<noteq> 0"
proof -
  define k where "k = unat i div 4096"
  from assms(2) have ki: "unat i = k * 4096"
    using div_mult_mod_eq [of "unat i" 4096] by (simp add: page_aligned_def k_def)
  from assms(3) have "unat i < unat (p_sz st)" by (simp add: word_less_nat_alt)
  with ki have kn: "k < npages st" unfolding npages_def by simp
  have "(of_nat k * 4096 :: uint) = of_nat (k * 4096)" by simp
  also have "\<dots> = of_nat (unat i)" by (simp only: ki)
  also have "\<dots> = i" by simp
  finally have addr: "(of_nat k * PGSIZE :: uint) = i" by (simp only: PGSIZE_def)
  from assms(1) kn have "case pte_of env st k of None \<Rightarrow> False | Some pte \<Rightarrow> pte AND PTE_P \<noteq> 0"
    unfolding all_present_def by blast
  moreover have "pte_of env st k = ns_walkpgdir env st i"
    by (simp only: pte_of_def addr)
  ultimately show ?thesis by (cases "ns_walkpgdir env st i") simp_all
qed

lemma all_present_pf:
  assumes "pf st' = pf st"
  shows "all_present env st' = all_present env st"
  by (simp only: all_present_def pf_derived(1,2) [OF assms])

lemma sweep_no_panic:
  assumes "page_sweep env f f2 i st = Some r"
  shows "page_aligned i \<longrightarrow> all_present env st \<longrightarrow> (\<forall>m s'. r \<noteq> Inl (Panic m s'))"
proof (rule page_sweep.raw_induct [OF _ assms,
      where P = "\<lambda>env _ _ i st r. page_aligned i \<longrightarrow> all_present env st \<longrightarrow> (\<forall>m s'. r \<noteq> Inl (Panic m s'))"], goal_cases)
  case (1 sweep env f f2 i st r)
  note IH = "1"(1) and body = "1"(2)
  show ?case
  proof (intro impI)
    assume al: "page_aligned i" and pr: "all_present env st"
    show "\<forall>m s'. r \<noteq> Inl (Panic m s')"
    proof (cases "i < p_sz st")
      case False
      with body show ?thesis by auto
    next
      case True
      from present_at [OF pr al True] obtain pte where
        pte: "ns_walkpgdir env st i = Some pte" "pte AND PTE_P \<noteq> 0" by blast
      obtain r1 s1 where w1: "filewrite env f (load (mem st) (p2v (PTE_ADDR pte)) (unat PGSIZE)) (uint PGSIZE) st = (r1, s1)" by force
      obtain r2 s2 where w2: "filewrite env f2 (uint_bytes (PTE_FLAGS pte)) 4 s1 = (r2, s2)" by force
      have p2: "pf s2 = pf st" using pf_pairs(7) [OF w1] pf_pairs(7) [OF w2] by simp
      show ?thesis
      proof (cases "r1 = uint PGSIZE")
        case False
        with True pte w1 w2 body
        have "r = Inl (Exit (cprintf ''Error:Failed to write UVM file.\<newline>'' [] s2))"
          by (simp add: Let_def)
        then show ?thesis by simp
      next
        case same: True
        let ?st = "cprintf ''Written UVM Page %d.\<newline>'' [uint (i div PGSIZE)] s2"
        from same True pte w1 w2 body
        have "sweep env f f2 (i + PGSIZE) ?st = Some r"
          by (simp add: Let_def)
        then have "page_aligned (i + PGSIZE) \<longrightarrow> all_present env ?st \<longrightarrow> (\<forall>m s'. r \<noteq> Inl (Panic m s'))"
          by (rule IH)
        moreover have "pf ?st = pf st" using p2 by simp
        then have "all_present env ?st = all_present env st" by (rule all_present_pf)
        with pr have "all_present env ?st" by (simp only:)
        ultimately show ?thesis using page_aligned_next [OF al] by simp
      qed
    qed
  qed
qed

lemma page_below_size:
  assumes "k < npages s"
  shows "k * 4096 < unat (p_sz s)"
  using assms unfolding npages_def by simp

lemma sweep_reach:
  assumes k: "k < npages s"
    and pres: "present_below env s k"
    and full: "page_writes_full_below env f f2 s k"
    and le: "j \<le> k"
  shows "page_sweep env f f2 (of_nat j * PGSIZE) (fold (sweep_page env f f2) [0..<j] s) =
         page_sweep env f f2 (of_nat k * PGSIZE) (fold (sweep_page env f f2) [0..<k] s)"
  using le
proof (induction rule: inc_induct)
  case base
  show ?case by simp
next
  case (step j)
  let ?st = "fold (sweep_page env f f2) [0..<j] s"
  have pfst: "pf ?st = pf s" by simp
  have "unat (p_sz s) < 2 ^ 32" using unsigned_less [of "p_sz s"] by simp
  with page_below_size [OF k] step.hyps have lt': "j * 4096 < unat (p_sz s)" and small: "j * 4096 < 2 ^ 32"
    by simp_all
  have lt: "(of_nat j * PGSIZE :: uint) < p_sz ?st"
    using lt' unat_page_addr [OF small] pf_fields(2) [OF pfst] by (simp add: word_less_nat_alt)
  from pres step.hyps obtain pte where pte: "pte_of env s j = Some pte" "pte AND PTE_P \<noteq> 0"
    by (auto simp: present_below_def split: option.splits)
  from full step.hyps have w: "fst (filewrite env f (page_block env s j) 4096 ?st) = 4096"
    by (simp add: page_writes_full_below_def)
  have "page_sweep env f f2 (of_nat j * PGSIZE) ?st =
        page_sweep env f f2 (of_nat (Suc j) * PGSIZE) (sweep_page env f f2 j ?st)"
    using lt small pte w by (intro sweep_iter) (simp_all add: pf_derived [OF pfst])
  also have "sweep_page env f f2 j ?st = fold (sweep_page env f f2) [0..<Suc j] s"
    by simp
  finally show ?case using step.IH by simp
qed

lemma sweep_at:
  assumes k: "k < npages s"
  shows "(of_nat k * PGSIZE :: uint) < p_sz (fold (sweep_page env f f2) [0..<k] s)"
    and "ns_walkpgdir env (fold (sweep_page env f f2) [0..<k] s) (of_nat k * PGSIZE) = pte_of env s k"
proof -
  let ?st = "fold (sweep_page env f f2) [0..<k] s"
  have pfst: "pf ?st = pf s" by simp
  have "unat (p_sz s) < 2 ^ 32" using unsigned_less [of "p_sz s"] by simp
  with page_below_size [OF k] have lt': "k * 4096 < unat (p_sz s)" and small: "k * 4096 < 2 ^ 32"
    by simp_all
  show "(of_nat k * PGSIZE :: uint) < p_sz ?st"
    using lt' unat_page_addr [OF small] pf_fields(2) [OF pfst] by (simp add: word_less_nat_alt)
  show "ns_walkpgdir env ?st (of_nat k * PGSIZE) = pte_of env s k"
    using pf_derived(2) [OF pfst, of env k] by (simp add: pte_of_def)
qed

section \<open>How the checkpoint ends\<close>

lemma create_Inl: "create env path type major minor s = Inl e \<Longrightarrow> \<exists>m st. e = Panic m st"
  unfolding create_def
  by (auto simp: Let_def split: prod.splits if_splits sum.splits)

lemma the_opener_rest_not_Inl: "the_opener_rest env omode ip s \<noteq> Inl e"
  unfolding the_opener_rest_def by (auto split: prod.splits if_splits)

lemma the_opener_Inl:
  assumes "the_opener env p om s = Inl e"
  shows "\<exists>m st. e = Panic m st"
proof (cases "om AND O_CREATE \<noteq> 0")
  case True
  with assms show ?thesis
    by (auto simp: the_opener_def Let_def the_opener_rest_not_Inl split: sum.splits if_splits
        dest: create_Inl)
next
  case False
  with assms show ?thesis
    by (auto simp: the_opener_def Let_def the_opener_rest_not_Inl split: prod.splits if_splits)
qed

lemma diagnosed_cprintf:
  "msg \<in> set error_diagnostics \<Longrightarrow> diagnosed (cprintf msg args s)"
  by (simp add: diagnosed_def cprintf_def on_kern_def)

lemma save_context_Exit:
  assumes "save_context env s = Inl (Exit s')"
  shows "diagnosed s'"
proof -
  from assms obtain fd s1 where o: "the_opener env ''context'' (O_CREATE OR O_RDWR) s = Inr (fd, s1)"
    by (auto simp: save_context_def split: sum.splits dest: the_opener_Inl)
  with assms show ?thesis
    by (auto simp: save_context_def Let_def error_diagnostics_def
        split: if_splits option.splits prod.splits intro!: diagnosed_cprintf)
qed

lemma save_trapframe_Exit:
  assumes "save_trapframe env s = Inl (Exit s')"
  shows "diagnosed s'"
proof -
  from assms obtain fd s1 where o: "the_opener env ''trapframe'' (O_CREATE OR O_RDWR) s = Inr (fd, s1)"
    by (auto simp: save_trapframe_def split: sum.splits dest: the_opener_Inl)
  with assms show ?thesis
    by (auto simp: save_trapframe_def Let_def error_diagnostics_def
        split: if_splits option.splits prod.splits intro!: diagnosed_cprintf)
qed

lemma save_proc_Exit:
  assumes "save_proc env s = Inl (Exit s')"
  shows "diagnosed s'"
proof -
  from assms obtain fd s1 where o: "the_opener env ''proc'' (O_CREATE OR O_RDWR) s = Inr (fd, s1)"
    by (auto simp: save_proc_def split: sum.splits dest: the_opener_Inl)
  with assms show ?thesis
    by (auto simp: save_proc_def Let_def error_diagnostics_def
        split: if_splits option.splits prod.splits intro!: diagnosed_cprintf)
qed

lemma sweep_Exit:
  assumes "page_sweep env f f2 i st = Some (Inl (Exit s'))"
  shows "diagnosed s'"
  using sweep_pf [OF assms]
  by (auto simp: sweep_ok_def error_diagnostics_def intro!: diagnosed_cprintf)

lemma save_uvm_Exit:
  assumes "save_uvm env s = Some (Inl (Exit s'))"
  shows "diagnosed s'"
proof -
  from assms obtain fd s1 where o1: "the_opener env ''pages'' (O_CREATE OR O_RDWR) s = Inr (fd, s1)"
    by (auto simp: save_uvm_def split: sum.splits dest: the_opener_Inl)
  with assms obtain fd2 s2 where o2: "the_opener env ''flag'' (O_CREATE OR O_RDWR) s1 = Inr (fd2, s2)"
    by (auto simp: save_uvm_def split: sum.splits dest: the_opener_Inl)
  show ?thesis
  proof (cases "fd < 0")
    case True
    with assms o1 o2 have "s' = cprintf ''Error:Failed to create UVM file.\<newline>'' [] s2"
      by (simp add: save_uvm_def)
    then show ?thesis by (simp add: diagnosed_cprintf error_diagnostics_def)
  next
    case False
    let ?s3 = "cprintf ''Created UVM file.\<newline>'' [] s2"
    from False assms o1 o2 obtain f where f: "ofile_at ?s3 fd = Some f"
      by (cases "ofile_at ?s3 fd") (simp_all add: save_uvm_def Let_def)
    from False assms o1 o2 f obtain f2 where f2: "ofile_at ?s3 fd2 = Some f2"
      by (cases "ofile_at ?s3 fd2") (simp_all add: save_uvm_def Let_def)
    from False assms o1 o2 f f2 have "page_sweep env f f2 0 ?s3 = Some (Inl (Exit s'))"
      by (simp add: save_uvm_def Let_def split: option.splits sum.splits)
    then show ?thesis by (rule sweep_Exit)
  qed
qed

lemma sys_isvpcb_no_return: "sys_isvpcb env s \<noteq> Some (Inr r)"
  by (simp add: sys_isvpcb_def Let_def split: option.splits sum.splits)

lemma sys_isvpcb_Exit:
  assumes "sys_isvpcb env s = Some (Inl (Exit s'))"
  shows "checkpoint_completed env s s' \<or> diagnosed s'"
proof (cases "save_uvm env (cprintf ''Parent PID: %d\<newline>'' [p_pid s] s)")
  case None
  with assms show ?thesis by (simp add: sys_isvpcb_def)
next
  case (Some r1)
  show ?thesis
  proof (cases r1)
    case (Inl e)
    with Some assms have "e = Exit s'" by (simp add: sys_isvpcb_def)
    with Some Inl show ?thesis by (auto dest: save_uvm_Exit)
  next
    case (Inr s1)
    note u = Some [unfolded Inr]
    show ?thesis
    proof (cases "save_context env s1")
      case (Inl e)
      with u assms have "e = Exit s'" by (simp add: sys_isvpcb_def)
      with Inl show ?thesis by (auto dest: save_context_Exit)
    next
      case c: (Inr s2)
      show ?thesis
      proof (cases "save_trapframe env s2")
        case (Inl e)
        with u c assms have "e = Exit s'" by (simp add: sys_isvpcb_def)
        with Inl show ?thesis by (auto dest: save_trapframe_Exit)
      next
        case t: (Inr s3)
        show ?thesis
        proof (cases "save_proc env s3")
          case (Inl e)
          with u c t assms have "e = Exit s'" by (simp add: sys_isvpcb_def)
          with Inl show ?thesis by (auto dest: save_proc_Exit)
        next
          case p: (Inr s4)
          with u c t assms have "s' = kill env (p_pid s4) (cprintf ''\<newline>*Write is done.*\<newline>\<newline>'' [] s4)"
            by (simp add: sys_isvpcb_def Let_def cprintf_def on_kern_def)
          with u c t p show ?thesis unfolding checkpoint_completed_def by blast
        qed
      qed
    qed
  qed
qed

lemma ofile_at_Some: "ofile_at s fd = Some f \<Longrightarrow> 0 \<le> fd \<and> nat fd < NOFILE \<and> f = ofile s (nat fd)"
  by (auto simp: ofile_at_def split: if_splits)

lemma save_uvm_Inr:
  assumes "save_uvm env s = Some (Inr s')"
  shows "\<exists>fd fd2 s1 s2 s4.
      the_opener env ''pages'' (O_CREATE OR O_RDWR) s = Inr (fd, s1) \<and>
      the_opener env ''flag'' (O_CREATE OR O_RDWR) s1 = Inr (fd2, s2) \<and>
      0 \<le> fd \<and> nat fd < NOFILE \<and> 0 \<le> fd2 \<and> nat fd2 < NOFILE \<and> fd \<noteq> fd2 \<and>
      ofile s (nat fd) = 0 \<and> ofile s (nat fd2) = 0 \<and>
      ofile s2 (nat fd) \<noteq> 0 \<and> ofile s2 (nat fd2) \<noteq> 0 \<and>
      page_sweep env (ofile s2 (nat fd)) (ofile s2 (nat fd2)) 0
        (cprintf ''Created UVM file.\<newline>'' [] s2) = Some (Inr s4) \<and>
      s' = fileclose env (ofile s2 (nat fd2)) (fileclose env (ofile s2 (nat fd))
             (ofile_clear fd2 (ofile_clear fd s4))) \<and>
      ofile s' = ofile s \<and> snd (pf s') = snd (pf s)"
proof -
  from assms obtain fd s1 where o1: "the_opener env ''pages'' (O_CREATE OR O_RDWR) s = Inr (fd, s1)"
    by (auto simp: save_uvm_def split: sum.splits)
  with assms obtain fd2 s2 where o2: "the_opener env ''flag'' (O_CREATE OR O_RDWR) s1 = Inr (fd2, s2)"
    by (auto simp: save_uvm_def split: sum.splits)
  let ?s3 = "cprintf ''Created UVM file.\<newline>'' [] s2"
  from assms o1 o2 have nn: "\<not> fd < 0"
    by (auto simp: save_uvm_def)
  from nn assms o1 o2 obtain f where f: "ofile_at ?s3 fd = Some f"
    by (cases "ofile_at ?s3 fd") (simp_all add: save_uvm_def Let_def)
  from nn assms o1 o2 f obtain f2 where f2: "ofile_at ?s3 fd2 = Some f2"
    by (cases "ofile_at ?s3 fd2") (simp_all add: save_uvm_def Let_def)
  from nn assms o1 o2 f f2 obtain s4 where sw: "page_sweep env f f2 0 ?s3 = Some (Inr s4)"
    and s': "s' = fileclose env f2 (fileclose env f (ofile_clear fd2 (ofile_clear fd s4)))"
    by (auto simp: save_uvm_def Let_def split: option.splits sum.splits)
  have p3: "pf ?s3 = pf s2" by simp
  from sweep_pf [OF sw] have p4: "pf s4 = pf ?s3" by (simp add: sweep_ok_def)
  from the_opener_Inr [OF o1] nn have a1: "snd (pf s1) = snd (pf s)" "nat fd < NOFILE"
    "ofile s (nat fd) = 0" "ofile s1 (nat fd) \<noteq> 0" "ofile s1 = (ofile s)(nat fd := ofile s1 (nat fd))"
    by (simp_all add: opened_def)
  from ofile_at_Some [OF f2] have b0: "0 \<le> fd2" "nat fd2 < NOFILE" "f2 = ofile ?s3 (nat fd2)" by simp_all
  from the_opener_Inr [OF o2] b0 have a2: "snd (pf s2) = snd (pf s1)"
    "ofile s1 (nat fd2) = 0" "ofile s2 (nat fd2) \<noteq> 0" "ofile s2 = (ofile s1)(nat fd2 := ofile s2 (nat fd2))"
    by (simp_all add: opened_def)
  from a1(4) a2(2) have ne: "nat fd \<noteq> nat fd2" by auto
  then have ne': "fd \<noteq> fd2" by auto
  have o3: "ofile ?s3 = ofile s2" using pf_fields(1) [OF p3] .
  have o4: "ofile s4 = ofile s2" using pf_fields(1) [OF p4] o3 by simp
  from ofile_at_Some [OF f] o3 have fe: "f = ofile s2 (nat fd)" by simp
  from b0(3) o3 have f2e: "f2 = ofile s2 (nat fd2)" by simp
  have z2: "ofile s (nat fd2) = 0"
    using a1(5) a2(2) ne by (metis fun_upd_other)
  have nz1: "ofile s2 (nat fd) \<noteq> 0"
    using a2(4) a1(4) ne by (metis fun_upd_other)
  have os': "ofile s' = (ofile s4)(nat fd := 0, nat fd2 := 0)"
    unfolding s' by (simp add: fileclose_def on_kern_def ofile_clear_def)
  have "ofile s' = ofile s"
  proof
    fix n
    show "ofile s' n = ofile s n"
    proof (cases "n = nat fd \<or> n = nat fd2")
      case True
      with a1(3) z2 os' show ?thesis by auto
    next
      case False
      then have "ofile s' n = ofile s2 n" using os' o4 by simp
      also have "\<dots> = ofile s1 n" using a2(4) False by (metis fun_upd_other)
      also have "\<dots> = ofile s n" using a1(5) False by (metis fun_upd_other)
      finally show ?thesis .
    qed
  qed
  moreover have "snd (pf s') = snd (pf s)"
  proof -
    have "snd (pf s') = snd (pf s4)"
      unfolding s' by (simp add: pf_def fileclose_def on_kern_def ofile_clear_def)
    with p4 p3 a2(1) a1(1) show ?thesis by simp
  qed
  ultimately show ?thesis
    using o1 o2 nn a1(2,3) b0(1,2) ne' z2 nz1 a2(3) sw s' fe f2e by (intro exI [of _ fd] exI [of _ fd2] exI [of _ s1] exI [of _ s2] exI [of _ s4]) simp
qed


section \<open>Evaluation on the concrete kernel\<close>

lemmas demo_defs = demo_def demo_missing_def demo_short_def demo_flagfail_def
      demo_env_def demo_state_def demo_opened_def demo_names_def demo_disk_def demo_junk_def
      begin_op_def end_op_def nameiparent_def namei_def ilock_def iunlock_def iunlockput_def iupdate_def
      dirlookup_def ialloc_def dirlink_def filealloc_def fileclose_def filewrite_def fileread_def
      kill_def cprintf_def fdalloc_def fdalloc_from.simps
      on_kern_def in_kern_def Let_def O_CREATE_def O_RDWR_def O_WRONLY_def O_RDONLY_def
      T_FILE_def T_DIR_def NOFILE_def FD_INODE_def ofile_at_def ofile_clear_def then_res_def

lemmas model_defs = the_opener_def the_opener_rest_def create_def save_uvm_def save_context_def
  save_trapframe_def save_proc_def sys_isvpcb_def ns_walkpgdir_def PGSIZE_def PTE_P_def
  PTE_ADDR_def PTE_FLAGS_def p2v_def ildpcb_open_def ildpcb_load_def ildpcb_close_def sys_ildpcb_def

section \<open>The opener against \<^verbatim>\<open>sys_open\<close>\<close>

lemma sys_open_rest_eq: "sys_open_rest = the_opener_rest"
  by (intro ext) (simp add: sys_open_rest_def the_opener_rest_def)

text \<open>
  C10. For every path and open mode, \<^verbatim>\<open>the_opener(path, mode)\<close> does what
  \<^verbatim>\<open>sys_open\<close> does once it has fetched that path and that mode from its arguments:
  the same descriptor or -1 (or the same panic inside \<^verbatim>\<open>create\<close>), and the same state
  of the file table, the inodes and \<^verbatim>\<open>proc->ofile\<close>.
\<close>

theorem the_opener_refines_sys_open:
  assumes "e_argstr env 0 s = (r1, path)" and "e_argint env 1 s = (r2, omode)"
    and "0 \<le> r1" and "0 \<le> r2"
  shows "sys_open env s = the_opener env path omode s"
  unfolding sys_open_def the_opener_def sys_open_rest_eq using assms by simp

theorem the_opener_refines_sys_open_witness:
  "e_argstr demo 0 demo_state = (0, ''pages'') \<and>
   e_argint demo 1 demo_state = (0, 0) \<and>
   sys_open demo demo_state =
     the_opener demo ''pages'' 0 demo_state"
proof -
  have a: "e_argstr demo 0 demo_state = (0, ''pages'')"
    by (simp add: demo_def demo_env_def)
  have b: "e_argint demo 1 demo_state = (0, 0)"
    by (simp add: demo_def demo_env_def)
  from the_opener_refines_sys_open [OF a b] a b show ?thesis by simp
qed

section \<open>The page sweep of the checkpoint\<close>

text \<open>
  C6. For a process of declared size \<open>S\<close>, the page sweep gives the pages file and the
  flag file one (4096-byte content block, four-byte permission word) pair per page
  index \<open>0, 1, \<dots>, \<lceil>S / 4096\<rceil> - 1\<close>, in ascending order, the word of a page written
  right after its block: the loop returns, and what it did is \<open>snapshot_sweep\<close>. This
  holds for a valid process (every page mapped and present) whose content-block writes
  are all complete, and whose size leaves the \<^verbatim>\<open>uint\<close> counter room to reach it
  (\<open>S \<le> 2 ^ 32 - 4096\<close>: user memory ends far below).
\<close>

theorem page_sweep_snapshot:
  assumes "unat (p_sz s) \<le> 2 ^ 32 - 4096" and "all_present env s" and "page_writes_full env f g s"
  shows "page_sweep env f g 0 s = Some (Inr (snapshot_sweep env f g s))"
  using sweep_from [OF assms, of 0] by simp

lemma upt_2: "[0..<2] = [0, Suc 0]"
  by (simp add: numeral_2_eq_2)

lemma npages_demo_opened: "npages demo_opened = 2"
  by (simp add: npages_def demo_opened_def demo_state_def)

theorem page_sweep_snapshot_witness:
  "unat (p_sz demo_opened) \<le> 2 ^ 32 - 4096 \<and> all_present demo demo_opened \<and>
   page_writes_full demo 256 272 demo_opened \<and>
   page_sweep demo 256 272 0 demo_opened = Some (Inr (snapshot_sweep demo 256 272 demo_opened)) \<and>
   ext (kern (snapshot_sweep demo 256 272 demo_opened)) =
     [(16, load (mem demo_opened) 2147487744 4096), (80, uint_bytes 7),
      (16, load (mem demo_opened) 2147491840 4096), (80, uint_bytes 5)]"
proof -
  have h1: "unat (p_sz demo_opened) \<le> 2 ^ 32 - 4096"
    by (simp add: demo_opened_def demo_state_def)
  have h2: "all_present demo demo_opened"
    unfolding all_present_def npages_demo_opened
  proof (intro allI impI)
    fix k :: nat
    assume "k < 2"
    then consider "k = 0" | "k = 1" by linarith
    then show "case pte_of demo demo_opened k of None \<Rightarrow> False | Some pte \<Rightarrow> pte AND PTE_P \<noteq> 0"
      by cases (simp_all add: pte_of_def ns_walkpgdir_def demo_def demo_env_def demo_opened_def demo_state_def PGSIZE_def PTE_P_def)
  qed
  have h3: "page_writes_full demo 256 272 demo_opened"
    by (simp add: page_writes_full_def filewrite_def in_kern_def demo_def demo_env_def split: prod.split)
  have c: "page_sweep demo 256 272 0 demo_opened = Some (Inr (snapshot_sweep demo 256 272 demo_opened))"
    using h1 h2 h3 by (rule page_sweep_snapshot)
  have l: "ext (kern (snapshot_sweep demo 256 272 demo_opened)) =
     [(16, load (mem demo_opened) 2147487744 4096), (80, uint_bytes 7),
      (16, load (mem demo_opened) 2147491840 4096), (80, uint_bytes 5)]"
    unfolding snapshot_sweep_def npages_demo_opened upt_2
    by (simp add: sweep_page_def page_block_def page_flags_def pte_of_def model_defs demo_defs)
  from h1 h2 h3 c l show ?thesis by (intro conjI)
qed

lemma npages_demo_pgdir: "npages (demo_opened\<lparr>p_pgdir := d\<rparr>) = 2"
  by (simp add: npages_def demo_opened_def demo_state_def)

lemma demo_page_writes_full_below: "page_writes_full_below demo f g s k"
  by (simp add: page_writes_full_below_def filewrite_def in_kern_def demo_def demo_env_def
      split: prod.split)

text \<open>
  C7. In the page sweep a page below the declared size must be mapped and present. A page
  with no page-table entry, or with an entry that is not present, panics the kernel
  (\<^verbatim>\<open>copyuvm: pte should exist.\<close>, \<^verbatim>\<open>copyuvm: page not present.\<close>): at the page
  the loop counter is at; and, for the sweep from 0, at any page \<open>k\<close> of the process
  that the sweep gets to, that is when the pages before it are mapped and present and
  their content blocks were written in full, the panic coming after the \<open>k\<close> pages
  before it were written. For a valid process, all of whose pages are mapped and
  present, the sweep never panics.
\<close>

theorem sweep_absent_page_panics:
  "(i < p_sz s \<and> ns_walkpgdir env s i = None \<longrightarrow>
      page_sweep env f g i s = Some (Inl (Panic ''copyuvm: pte should exist.'' s))) \<and>
   (i < p_sz s \<and> ns_walkpgdir env s i = Some pte \<and> pte AND PTE_P = 0 \<longrightarrow>
      page_sweep env f g i s = Some (Inl (Panic ''copyuvm: page not present.'' s))) \<and>
   (k < npages s \<and> present_below env s k \<and> page_writes_full_below env f g s k \<and>
    pte_of env s k = None \<longrightarrow>
      page_sweep env f g 0 s =
        Some (Inl (Panic ''copyuvm: pte should exist.'' (fold (sweep_page env f g) [0..<k] s)))) \<and>
   (k < npages s \<and> present_below env s k \<and> page_writes_full_below env f g s k \<and>
    pte_of env s k = Some pte \<and> pte AND PTE_P = 0 \<longrightarrow>
      page_sweep env f g 0 s =
        Some (Inl (Panic ''copyuvm: page not present.'' (fold (sweep_page env f g) [0..<k] s)))) \<and>
   (all_present env s \<longrightarrow> (\<forall>m s'. page_sweep env f g 0 s \<noteq> Some (Inl (Panic m s'))))"
proof (intro conjI impI)
  assume "i < p_sz s \<and> ns_walkpgdir env s i = None"
  then show "page_sweep env f g i s = Some (Inl (Panic ''copyuvm: pte should exist.'' s))"
    by (subst page_sweep.simps) simp
next
  assume "i < p_sz s \<and> ns_walkpgdir env s i = Some pte \<and> pte AND PTE_P = 0"
  then show "page_sweep env f g i s = Some (Inl (Panic ''copyuvm: page not present.'' s))"
    by (subst page_sweep.simps) simp
next
  assume a: "k < npages s \<and> present_below env s k \<and> page_writes_full_below env f g s k \<and>
    pte_of env s k = None"
  then have k: "k < npages s" and p: "present_below env s k"
    and w: "page_writes_full_below env f g s k" and n: "pte_of env s k = None" by simp_all
  have "page_sweep env f g 0 s =
        page_sweep env f g (of_nat k * PGSIZE) (fold (sweep_page env f g) [0..<k] s)"
    using sweep_reach [OF k p w, of 0] by simp
  also have "\<dots> = Some (Inl (Panic ''copyuvm: pte should exist.'' (fold (sweep_page env f g) [0..<k] s)))"
    using sweep_at [OF k, of env f g] n by (subst page_sweep.simps) simp
  finally show "page_sweep env f g 0 s =
        Some (Inl (Panic ''copyuvm: pte should exist.'' (fold (sweep_page env f g) [0..<k] s)))" .
next
  assume a: "k < npages s \<and> present_below env s k \<and> page_writes_full_below env f g s k \<and>
    pte_of env s k = Some pte \<and> pte AND PTE_P = 0"
  then have k: "k < npages s" and p: "present_below env s k"
    and w: "page_writes_full_below env f g s k" and n: "pte_of env s k = Some pte" "pte AND PTE_P = 0"
    by simp_all
  have "page_sweep env f g 0 s =
        page_sweep env f g (of_nat k * PGSIZE) (fold (sweep_page env f g) [0..<k] s)"
    using sweep_reach [OF k p w, of 0] by simp
  also have "\<dots> = Some (Inl (Panic ''copyuvm: page not present.'' (fold (sweep_page env f g) [0..<k] s)))"
    using sweep_at [OF k, of env f g] n by (subst page_sweep.simps) simp
  finally show "page_sweep env f g 0 s =
        Some (Inl (Panic ''copyuvm: page not present.'' (fold (sweep_page env f g) [0..<k] s)))" .
next
  assume ap: "all_present env s"
  show "\<forall>m s'. page_sweep env f g 0 s \<noteq> Some (Inl (Panic m s'))"
  proof (intro allI notI)
    fix m s'
    assume "page_sweep env f g 0 s = Some (Inl (Panic m s'))"
    from sweep_no_panic [OF this] ap show False by (simp add: page_aligned_def)
  qed
qed


theorem sweep_absent_page_panics_witness:
  "page_sweep demo 256 272 0 (demo_opened\<lparr>p_pgdir := 4096\<rparr>) =
     Some (Inl (Panic ''copyuvm: pte should exist.'' (demo_opened\<lparr>p_pgdir := 4096\<rparr>))) \<and>
   page_sweep demo 256 272 0 (demo_opened\<lparr>p_pgdir := 8192\<rparr>) =
     Some (Inl (Panic ''copyuvm: page not present.'' (demo_opened\<lparr>p_pgdir := 8192\<rparr>))) \<and>
   present_below demo (demo_opened\<lparr>p_pgdir := 12288\<rparr>) 1 \<and>
   pte_of demo (demo_opened\<lparr>p_pgdir := 12288\<rparr>) 1 = None \<and>
   page_sweep demo 256 272 0 (demo_opened\<lparr>p_pgdir := 12288\<rparr>) =
     Some (Inl (Panic ''copyuvm: pte should exist.''
       (fold (sweep_page demo 256 272) [0..<1] (demo_opened\<lparr>p_pgdir := 12288\<rparr>)))) \<and>
   present_below demo (demo_opened\<lparr>p_pgdir := 16384\<rparr>) 1 \<and>
   pte_of demo (demo_opened\<lparr>p_pgdir := 16384\<rparr>) 1 = Some 8196 \<and>
   page_sweep demo 256 272 0 (demo_opened\<lparr>p_pgdir := 16384\<rparr>) =
     Some (Inl (Panic ''copyuvm: page not present.''
       (fold (sweep_page demo 256 272) [0..<1] (demo_opened\<lparr>p_pgdir := 16384\<rparr>)))) \<and>
   map fst (ext (kern (fold (sweep_page demo 256 272) [0..<1] (demo_opened\<lparr>p_pgdir := 16384\<rparr>)))) =
     [16, 80] \<and>
   all_present demo demo_opened \<and>
   page_sweep demo 256 272 0 demo_opened \<noteq> Some (Inl (Panic ''copyuvm: pte should exist.'' demo_opened))"
proof -
  have a: "(0 :: uint) < p_sz (demo_opened\<lparr>p_pgdir := 4096\<rparr>) \<and>
      ns_walkpgdir demo (demo_opened\<lparr>p_pgdir := 4096\<rparr>) 0 = None"
    by (simp add: demo_opened_def demo_state_def ns_walkpgdir_def demo_def demo_env_def)
  have b: "(0 :: uint) < p_sz (demo_opened\<lparr>p_pgdir := 8192\<rparr>) \<and>
      ns_walkpgdir demo (demo_opened\<lparr>p_pgdir := 8192\<rparr>) 0 = Some 4102 \<and>
      (4102 :: uint) AND PTE_P = 0"
    by (simp add: demo_opened_def demo_state_def ns_walkpgdir_def demo_def demo_env_def PTE_P_def)
  have c: "all_present demo demo_opened"
    unfolding all_present_def npages_demo_opened
  proof (intro allI impI)
    fix k :: nat
    assume "k < 2"
    then consider "k = 0" | "k = 1" by linarith
    then show "case pte_of demo demo_opened k of None \<Rightarrow> False | Some pte \<Rightarrow> pte AND PTE_P \<noteq> 0"
      by cases (simp_all add: pte_of_def ns_walkpgdir_def demo_def demo_env_def demo_opened_def demo_state_def PGSIZE_def PTE_P_def)
  qed
  have p0: "pte_of demo (demo_opened\<lparr>p_pgdir := 12288\<rparr>) 0 = Some 4103"
    "pte_of demo (demo_opened\<lparr>p_pgdir := 16384\<rparr>) 0 = Some 4103"
    by (simp_all add: pte_of_def ns_walkpgdir_def demo_def demo_env_def PGSIZE_def)
  have d: "present_below demo (demo_opened\<lparr>p_pgdir := 12288\<rparr>) 1"
    "present_below demo (demo_opened\<lparr>p_pgdir := 16384\<rparr>) 1"
    by (simp_all add: present_below_def p0 PTE_P_def)
  have e: "pte_of demo (demo_opened\<lparr>p_pgdir := 12288\<rparr>) 1 = None"
    by (simp add: pte_of_def ns_walkpgdir_def demo_def demo_env_def PGSIZE_def)
  have e': "pte_of demo (demo_opened\<lparr>p_pgdir := 16384\<rparr>) 1 = Some 8196"
    by (simp add: pte_of_def ns_walkpgdir_def demo_def demo_env_def PGSIZE_def)
  have z: "(8196 :: uint) AND PTE_P = 0" by (simp add: PTE_P_def)
  have k: "1 < npages (demo_opened\<lparr>p_pgdir := d\<rparr>)" for d
    by (simp add: npages_demo_pgdir)
  note t1 = sweep_absent_page_panics [where i = 0 and s = "demo_opened\<lparr>p_pgdir := 4096\<rparr>"
      and env = demo and f = 256 and g = 272, THEN conjunct1, rule_format, OF a]
  note t2 = sweep_absent_page_panics [where i = 0 and s = "demo_opened\<lparr>p_pgdir := 8192\<rparr>"
      and pte = 4102 and env = demo and f = 256 and g = 272,
      THEN conjunct2, THEN conjunct1, rule_format, OF b]
  note t3 = sweep_absent_page_panics [where k = 1 and s = "demo_opened\<lparr>p_pgdir := 12288\<rparr>"
      and env = demo and f = 256 and g = 272,
      THEN conjunct2, THEN conjunct2, THEN conjunct1, rule_format,
      OF conjI [OF k conjI [OF d(1) conjI [OF demo_page_writes_full_below e]]]]
  note t4 = sweep_absent_page_panics [where k = 1 and s = "demo_opened\<lparr>p_pgdir := 16384\<rparr>"
      and pte = 8196 and env = demo and f = 256 and g = 272,
      THEN conjunct2, THEN conjunct2, THEN conjunct2, THEN conjunct1, rule_format,
      OF conjI [OF k conjI [OF d(2) conjI [OF demo_page_writes_full_below conjI [OF e' z]]]]]
  note t5 = sweep_absent_page_panics [where s = demo_opened and env = demo and f = 256 and g = 272,
      THEN conjunct2, THEN conjunct2, THEN conjunct2, THEN conjunct2, rule_format, OF c]
  have l: "map fst (ext (kern (fold (sweep_page demo 256 272) [0..<1] (demo_opened\<lparr>p_pgdir := 16384\<rparr>)))) =
     [16, 80]"
    by (simp add: sweep_page_def page_block_def page_flags_def p0 filewrite_def in_kern_def
        cprintf_def on_kern_def demo_def demo_env_def demo_opened_def demo_state_def)
  from t1 t2 d(1) e t3 d(2) e' t4 l c t5 show ?thesis by (intro conjI)
qed

section \<open>The end of the checkpoint and its frame\<close>

text \<open>
  C8, at a process with fifteen of its sixteen descriptors taken: the pages artifact
  gets descriptor 15, the open of the flag artifact returns -1, which the code does not
  test (it tests the descriptor of the pages artifact only), no diagnostic is printed,
  and the next use of the descriptor is \<^verbatim>\<open>proc->ofile[-1]\<close>: the call does not end
  with the \<^verbatim>\<open>exit()\<close> of the caller.
\<close>

theorem checkpoint_flag_open_unchecked:
  "fst (projr (the_opener demo ''pages'' (O_CREATE OR O_RDWR)
          (cprintf ''Parent PID: %d\<newline>'' [3] demo_crowded))) = 15 \<and>
   fst (projr (the_opener demo ''flag'' (O_CREATE OR O_RDWR)
          (snd (projr (the_opener demo ''pages'' (O_CREATE OR O_RDWR)
             (cprintf ''Parent PID: %d\<newline>'' [3] demo_crowded)))))) = - 1 \<and>
   console (kern (snd (projr (the_opener demo ''flag'' (O_CREATE OR O_RDWR)
          (snd (projr (the_opener demo ''pages'' (O_CREATE OR O_RDWR)
             (cprintf ''Parent PID: %d\<newline>'' [3] demo_crowded)))))))) =
     [(''Parent PID: %d\<newline>'', [3])] \<and>
   sys_isvpcb demo demo_crowded = Some (Inl (Undefined ''proc->ofile[fd2]'')) \<and>
   exit_state (sys_isvpcb demo demo_crowded) = None"
  by (simp add: exit_state_def model_defs demo_defs demo_crowded_def)

lemma sweep_out_state:
  assumes "page_sweep env f g i st = Some r" and "out_state r = Some st'"
  shows "pf st' = pf st"
  using sweep_pf [OF assms(1)] assms(2)
  by (auto simp: sweep_ok_def out_state_def split: sum.splits stop.splits)

text \<open>
  C9. The page sweep does not change the memory, the page table or the size of the
  source process, nor \<^verbatim>\<open>proc->ofile\<close>, however it ends. When the first part of the
  checkpoint completes, it has closed the two files it opened, the pages file and the
  flag file, and no other; their two slots of \<^verbatim>\<open>proc->ofile\<close>, free before, are
  cleared again; every other slot is as before, so the whole table is.
\<close>

theorem save_uvm_frame:
  "(\<forall>r st'. page_sweep env f g i st = Some r \<and> out_state r = Some st' \<longrightarrow>
      mem st' = mem st \<and> p_pgdir st' = p_pgdir st \<and> p_sz st' = p_sz st \<and> ofile st' = ofile st) \<and>
   (\<forall>s'. save_uvm env s = Some (Inr s') \<longrightarrow>
      mem s' = mem s \<and> p_pgdir s' = p_pgdir s \<and> p_sz s' = p_sz s \<and> ofile s' = ofile s \<and>
      (\<exists>fd fd2 s1 s2 s4.
         the_opener env ''pages'' (O_CREATE OR O_RDWR) s = Inr (fd, s1) \<and>
         the_opener env ''flag'' (O_CREATE OR O_RDWR) s1 = Inr (fd2, s2) \<and>
         0 \<le> fd \<and> nat fd < NOFILE \<and> 0 \<le> fd2 \<and> nat fd2 < NOFILE \<and> fd \<noteq> fd2 \<and>
         ofile s (nat fd) = 0 \<and> ofile s (nat fd2) = 0 \<and>
         ofile s2 (nat fd) \<noteq> 0 \<and> ofile s2 (nat fd2) \<noteq> 0 \<and>
         page_sweep env (ofile s2 (nat fd)) (ofile s2 (nat fd2)) 0
           (cprintf ''Created UVM file.\<newline>'' [] s2) = Some (Inr s4) \<and>
         s' = fileclose env (ofile s2 (nat fd2)) (fileclose env (ofile s2 (nat fd))
                (ofile_clear fd2 (ofile_clear fd s4)))))"
proof (intro conjI allI impI)
  fix r st'
  assume a: "page_sweep env f g i st = Some r \<and> out_state r = Some st'"
  then have "pf st' = pf st" by (auto intro: sweep_out_state)
  then show "mem st' = mem st" "p_pgdir st' = p_pgdir st" "p_sz st' = p_sz st" "ofile st' = ofile st"
    by (simp_all add: pf_def)
next
  fix s'
  assume a: "save_uvm env s = Some (Inr s')"
  from save_uvm_Inr [OF a] obtain fd fd2 s1 s2 s4 where
    r: "the_opener env ''pages'' (O_CREATE OR O_RDWR) s = Inr (fd, s1) \<and>
      the_opener env ''flag'' (O_CREATE OR O_RDWR) s1 = Inr (fd2, s2) \<and>
      0 \<le> fd \<and> nat fd < NOFILE \<and> 0 \<le> fd2 \<and> nat fd2 < NOFILE \<and> fd \<noteq> fd2 \<and>
      ofile s (nat fd) = 0 \<and> ofile s (nat fd2) = 0 \<and>
      ofile s2 (nat fd) \<noteq> 0 \<and> ofile s2 (nat fd2) \<noteq> 0 \<and>
      page_sweep env (ofile s2 (nat fd)) (ofile s2 (nat fd2)) 0
        (cprintf ''Created UVM file.\<newline>'' [] s2) = Some (Inr s4) \<and>
      s' = fileclose env (ofile s2 (nat fd2)) (fileclose env (ofile s2 (nat fd))
             (ofile_clear fd2 (ofile_clear fd s4))) \<and>
      ofile s' = ofile s \<and> snd (pf s') = snd (pf s)"
    by blast
  from r have e: "ofile s' = ofile s" "snd (pf s') = snd (pf s)" by blast+
  then show "mem s' = mem s" "p_pgdir s' = p_pgdir s" "p_sz s' = p_sz s" "ofile s' = ofile s"
    by (simp_all add: pf_def)
  from r show "\<exists>fd fd2 s1 s2 s4.
         the_opener env ''pages'' (O_CREATE OR O_RDWR) s = Inr (fd, s1) \<and>
         the_opener env ''flag'' (O_CREATE OR O_RDWR) s1 = Inr (fd2, s2) \<and>
         0 \<le> fd \<and> nat fd < NOFILE \<and> 0 \<le> fd2 \<and> nat fd2 < NOFILE \<and> fd \<noteq> fd2 \<and>
         ofile s (nat fd) = 0 \<and> ofile s (nat fd2) = 0 \<and>
         ofile s2 (nat fd) \<noteq> 0 \<and> ofile s2 (nat fd2) \<noteq> 0 \<and>
         page_sweep env (ofile s2 (nat fd)) (ofile s2 (nat fd2)) 0
           (cprintf ''Created UVM file.\<newline>'' [] s2) = Some (Inr s4) \<and>
         s' = fileclose env (ofile s2 (nat fd2)) (fileclose env (ofile s2 (nat fd))
                (ofile_clear fd2 (ofile_clear fd s4)))"
    by (intro exI [of _ fd] exI [of _ fd2] exI [of _ s1] exI [of _ s2] exI [of _ s4]) simp
qed

theorem save_uvm_frame_witness:
  "save_uvm demo (demo_state\<lparr>ofile := (\<lambda>n. 0)(0 := 999)\<rparr>) \<noteq> None \<and>
   \<not> isl (the (save_uvm demo (demo_state\<lparr>ofile := (\<lambda>n. 0)(0 := 999)\<rparr>))) \<and>
   mem (projr (the (save_uvm demo (demo_state\<lparr>ofile := (\<lambda>n. 0)(0 := 999)\<rparr>)))) = mem demo_state \<and>
   ofile (projr (the (save_uvm demo (demo_state\<lparr>ofile := (\<lambda>n. 0)(0 := 999)\<rparr>)))) = (\<lambda>n. 0)(0 := 999) \<and>
   map fst (ext (kern (projr (the (save_uvm demo (demo_state\<lparr>ofile := (\<lambda>n. 0)(0 := 999)\<rparr>)))))) =
     [16, 80, 16, 80]"
proof -
  let ?s = "demo_state\<lparr>ofile := (\<lambda>n. 0)(0 := 999)\<rparr>"
  have ev: "save_uvm demo ?s = Some (Inr (projr (the (save_uvm demo ?s))))"
    by (simp add: model_defs demo_defs page_sweep.simps)
  then have a: "save_uvm demo ?s \<noteq> None" "\<not> isl (the (save_uvm demo ?s))"
    by (metis option.distinct(1), metis option.sel sum.disc(2))
  note t = save_uvm_frame [where env = demo and s = ?s, THEN conjunct2, rule_format, OF ev]
  from t have b: "mem (projr (the (save_uvm demo ?s))) = mem ?s"
    and c: "ofile (projr (the (save_uvm demo ?s))) = ofile ?s" by blast+
  have d: "map fst (ext (kern (projr (the (save_uvm demo ?s))))) = [16, 80, 16, 80]"
    by (simp add: model_defs demo_defs page_sweep.simps)
  from a b c d show ?thesis by simp
qed

section \<open>What restore does with the artifacts\<close>

lemma length_load [simp]: "length (load m a n) = n"
  by (simp add: load_def)










lemma load_4: "load m a 4 = [m a, m (a + 1), m (a + 2), m (a + 3)]"
  by (simp add: load_def upt_rec numeral_nat)

lemma load_8: "load m a 8 = [m a, m (a + 1), m (a + 2), m (a + 3), m (a + 4), m (a + 5), m (a + 6), m (a + 7)]"
  by (simp add: load_def upt_rec numeral_nat)

lemma upt_4: "[0..<4] = [0, 1, 2, 3]"
  by (simp add: upt_rec numeral_nat)


lemma demo_open:
  "ildpcb_open (demo_env demo_names disk wr) demo_state = Inr (demo_handles, demo_restoring)"
  by (simp add: model_defs demo_defs demo_handles_def demo_restoring_def numeral_2_eq_2 [symmetric])

lemma demo_reads:
  "e_fileread (demo_env names disk wr) 272 4 (kern demo_restoring) =
     ((int (length (take 4 (disk 32))), take 4 (disk 32)), kern demo_restoring)"
  "e_fileread (demo_env names disk wr) 288 4 (kern demo_restoring) =
     ((int (length (take 4 (disk 48))), take 4 (disk 48)), kern demo_restoring)"
  "e_fileread (demo_env names disk wr) 304 8 (kern demo_restoring) =
     ((int (length (take 8 (disk 64))), take 8 (disk 64)), kern demo_restoring)"
  by (simp_all add: demo_env_def demo_restoring_def demo_state_def)

lemma demo_sizes:
  "sizeof_context (demo_env names disk wr) = 4" "sizeof_trapframe (demo_env names disk wr) = 4"
  "sizeof_proc (demo_env names disk wr) = 8"
  "lp_context (demo_env names disk wr) bs = le32 (take 4 (drop 4 bs))"
  "lp_tf (demo_env names disk wr) bs = le32 (take 4 bs)"
  "e_load_the_proc (demo_env names disk wr) lp pgf ff st = (7, st)"
  by (simp_all add: demo_env_def)

lemma demo_handles_sel:
  "h_context_f demo_handles = 272" "h_tf_f demo_handles = 288" "h_proc_f demo_handles = 304"
  "h_pages_f demo_handles = 256" "h_flag_f demo_handles = 320"
  by (simp_all add: demo_handles_def)

lemma demo_read:
  "ildpcb_read (demo_env names disk wr) demo_junk demo_handles demo_restoring =
     (\<lparr>loaded_context = load (buffers_mem (demo_env names disk wr) demo_junk (\<lambda>a. 0)
          (take 4 (disk 32)) (take 4 (disk 48)) (take 8 (disk 64))) 2382352384 4,
       loaded_tf = load (buffers_mem (demo_env names disk wr) demo_junk (\<lambda>a. 0)
          (take 4 (disk 32)) (take 4 (disk 48)) (take 8 (disk 64))) 2382352400 4,
       loaded_proc = load (buffers_mem (demo_env names disk wr) demo_junk (\<lambda>a. 0)
          (take 4 (disk 32)) (take 4 (disk 48)) (take 8 (disk 64))) 2382352416 8,
       read_counts = [int (length (take 4 (disk 32))), int (length (take 4 (disk 48))),
                      int (length (take 8 (disk 64)))]\<rparr>,
      demo_restoring\<lparr>mem := buffers_mem (demo_env names disk wr) demo_junk (\<lambda>a. 0)
          (take 4 (disk 32)) (take 4 (disk 48)) (take 8 (disk 64)),
        kern := (kern demo_restoring)\<lparr>console := console (kern demo_restoring) @ [(''Read was successful.\<newline>'', [])]\<rparr>\<rparr>)"
proof -
  have m: "mem demo_restoring = (\<lambda>a. 0)" by (simp add: demo_restoring_def demo_state_def)
  have j: "buf_context demo_junk = 2382352384" "buf_tf demo_junk = 2382352400"
    "buf_proc demo_junk = 2382352416" by (simp_all add: demo_junk_def)
  show ?thesis
    by (simp add: ildpcb_read_def fileread_def in_kern_def cprintf_def on_kern_def Let_def
        buffers_mem_def demo_handles_sel demo_sizes demo_reads m j)
qed



lemma demo_loaded_eq:
  "demo_loaded (demo_env demo_names disk wr) =
     projr (ildpcb_load (demo_env demo_names disk wr) demo_junk demo_handles demo_restoring)"
  by (simp add: demo_loaded_def demo_open)

lemma demo_sys_ildpcb:
  "sys_ildpcb (demo_env demo_names disk wr) demo_junk demo_state =
     (case ildpcb_load (demo_env demo_names disk wr) demo_junk demo_handles demo_restoring of
        Inl e \<Rightarrow> Inl e
      | Inr (b, s2) \<Rightarrow> Inr (7, ildpcb_close (demo_env demo_names disk wr) demo_handles s2))"
  by (simp add: sys_ildpcb_def then_res_def demo_open demo_sizes split: sum.split)

lemma demo_restoring_sel:
  "mem demo_state a = 0"
  "mapped demo_restoring a = (2147483648 \<le> a \<and> a < 2382364672)"
  "mapped demo_state a = (2147483648 \<le> a \<and> a < 2382364672)"
  "console (kern demo_restoring) = []"
  by (simp_all add: demo_restoring_def demo_state_def)

lemma demo_junk_sel:
  "buf_context demo_junk = 2382352384" "buf_tf demo_junk = 2382352400"
  "buf_proc demo_junk = 2382352416" "junk_context demo_junk = [1, 2, 3, 4]"
  "junk_tf demo_junk = [5, 6, 7, 8]" "junk_proc demo_junk = [9, 9, 9, 9, 9, 9, 9, 9]"
  by (simp_all add: demo_junk_def)

lemmas restore_eval = demo_loaded_eq demo_sys_ildpcb demo_def demo_short_def demo_unmapped_def
  demo_open demo_read
  ildpcb_load_def ildpcb_install_def assign_through_def range_mapped_def demo_sizes
  buffers_mem_def local_buf_def demo_junk_sel demo_disk_def le32_def load_4 load_8 upt_4
  demo_restoring_sel



text \<open>
  C4, at a kernel without the pages artifact: the open returns -1 and the next use of
  the descriptor is \<^verbatim>\<open>proc->ofile[-1]\<close>; no load error is returned.
\<close>

theorem restore_uses_failed_handle:
  "fst (projr (the_opener demo_missing ''pages'' O_RDONLY demo_state)) = - 1 \<and>
   ildpcb_open demo_missing demo_state = Inl (Undefined ''proc->ofile[pages_fd]'') \<and>
   sys_ildpcb demo_missing demo_junk demo_state = Inl (Undefined ''proc->ofile[pages_fd]'')"
  by (simp add: model_defs demo_defs)


text \<open>
  C3, at a kernel whose context artifact is empty: the read returns 0, the buffer keeps
  what it held, \<^verbatim>\<open>Read was successful.\<close> is printed, the unread buffer is stored
  through the descriptor's \<^verbatim>\<open>context\<close> pointer, and the call returns what
  \<^verbatim>\<open>load_the_proc\<close> returns.
\<close>

theorem restore_ignores_short_read:
  "\<not> isl (ildpcb_open demo_short demo_state) \<and>
   read_counts (fst (demo_loaded demo_short)) = [0, 4, 8] \<and>
   loaded_context (fst (demo_loaded demo_short)) = junk_context demo_junk \<and>
   console (kern (snd (demo_loaded demo_short))) = [(''Read was successful.\<newline>'', [])] \<and>
   mem (snd (demo_loaded demo_short)) 2147491840 = 1 \<and>
   \<not> isl (sys_ildpcb demo_short demo_junk demo_state) \<and>
   fst (projr (sys_ildpcb demo_short demo_junk demo_state)) = 7"
  by (simp add: restore_eval)

text \<open>
  C5, at a kernel where a write to the flag artifact returns -1: the checkpoint runs to
  its end, with no diagnostic.
\<close>

theorem checkpoint_ignores_flag_write:
  "fst (filewrite demo_flagfail 272 (uint_bytes 7) 4 demo_opened) = - 1 \<and>
   exit_state (sys_isvpcb demo_flagfail demo_state) \<noteq> None \<and>
   \<not> diagnosed (the (exit_state (sys_isvpcb demo_flagfail demo_state))) \<and>
   last (console (kern (the (exit_state (sys_isvpcb demo_flagfail demo_state))))) =
     (''\<newline>*Write is done.*\<newline>\<newline>'', [])"
  by (simp add: exit_state_def diagnosed_def error_diagnostics_def model_defs demo_defs page_sweep.simps)

end
